theory Spec2Isabelle
  imports Complex_Main
begin

section \<open>JavaScript values\<close>

text \<open>
  The notification payloads and the canonical events are plain JavaScript data. A number is
  a finite value or one of the three non-finite ones; an object is its list of own
  properties in insertion order. Characters are the code units below 256. Property names
  are plain keys: the enumeration order of integer-like names and the name
  \<^verbatim>\<open>__proto__\<close> are outside the model.
\<close>

datatype jsnumber = Finite rat | NaN | PosInfinity | NegInfinity

datatype json =
    JUndef
  | JNull
  | JBool bool
  | JNum jsnumber
  | JStr string
  | JArr "json list"
  | JObj "(string \<times> json) list"

type_synonym fields = "(string \<times> json) list"

text \<open>Reading a property: \<^verbatim>\<open>value.name\<close>. The names the program reads are never
  indices or built-in members, so an array has none of them.\<close>

fun fld :: "json \<Rightarrow> string \<Rightarrow> json" where
  "fld (JObj kvs) k = (case map_of kvs k of Some v \<Rightarrow> v | None \<Rightarrow> JUndef)"
| "fld _ k = JUndef"

text \<open>Optional chaining: \<^verbatim>\<open>value?.name\<close> on a record that may be null.\<close>

definition ofld :: "json option \<Rightarrow> string \<Rightarrow> json" where
  "ofld r k = (case r of None \<Rightarrow> JUndef | Some v \<Rightarrow> fld v k)"

text \<open>Assignment \<^verbatim>\<open>target[name] = value\<close>: an existing property keeps its place.\<close>

fun set_field :: "string \<Rightarrow> json \<Rightarrow> fields \<Rightarrow> fields" where
  "set_field k v [] = [(k, v)]"
| "set_field k v ((k', v') # kvs) =
     (if k' = k then (k, v) # kvs else (k', v') # set_field k v kvs)"

text \<open>Object spread \<^verbatim>\<open>{ ...target, ...source }\<close>.\<close>

fun spread :: "fields \<Rightarrow> fields \<Rightarrow> fields" where
  "spread tgt [] = tgt"
| "spread tgt ((k, v) # src) = spread (set_field k v tgt) src"

fun delete_field :: "string \<Rightarrow> fields \<Rightarrow> fields" where
  "delete_field k [] = []"
| "delete_field k ((k', v') # kvs) =
     (if k' = k then delete_field k kvs else (k', v') # delete_field k kvs)"

definition nullish :: "json \<Rightarrow> bool" where
  "nullish v = (v = JUndef \<or> v = JNull)"

text \<open>The chain \<^verbatim>\<open>a ?? b ?? c\<close>: the first operand that is neither null nor undefined,
  the last operand when there is none.\<close>

fun coalesce :: "json list \<Rightarrow> json" where
  "coalesce [] = JUndef"
| "coalesce [x] = x"
| "coalesce (x # y # ys) = (if nullish x then coalesce (y # ys) else x)"

definition truthy :: "json \<Rightarrow> bool" where
  "truthy v = (case v of
       JUndef \<Rightarrow> False
     | JNull \<Rightarrow> False
     | JBool b \<Rightarrow> b
     | JNum n \<Rightarrow> (n \<noteq> Finite 0 \<and> n \<noteq> NaN)
     | JStr s \<Rightarrow> s \<noteq> []
     | JArr _ \<Rightarrow> True
     | JObj _ \<Rightarrow> True)"

subsection \<open>Strings\<close>

definition toLowerChar :: "char \<Rightarrow> char" where
  "toLowerChar c =
     (let n = (of_char c :: nat)
      in if (65 \<le> n \<and> n \<le> 90) \<or> (192 \<le> n \<and> n \<le> 222 \<and> n \<noteq> 215)
         then char_of (n + 32) else c)"

definition toLowerCase :: "string \<Rightarrow> string" where
  "toLowerCase s = map toLowerChar s"

text \<open>The class \<^verbatim>\<open>\s\<close>, which is also what \<^verbatim>\<open>trim\<close> removes.\<close>

definition isSpace :: "char \<Rightarrow> bool" where
  "isSpace c = (let n = (of_char c :: nat) in (9 \<le> n \<and> n \<le> 13) \<or> n = 32 \<or> n = 160)"

definition trim :: "string \<Rightarrow> string" where
  "trim s = rev (dropWhile isSpace (rev (dropWhile isSpace s)))"

text \<open>\<^verbatim>\<open>parts.join(' ')\<close>\<close>

fun joinSpace :: "string list \<Rightarrow> string" where
  "joinSpace [] = []"
| "joinSpace [x] = x"
| "joinSpace (x # y # ys) = x @ '' '' @ joinSpace (y # ys)"

section \<open>The field extractors of the event converter\<close>

definition asRecord :: "json \<Rightarrow> json option" where
  "asRecord v = (case v of JObj _ \<Rightarrow> Some v | JArr _ \<Rightarrow> Some v | _ \<Rightarrow> None)"

definition asString :: "json \<Rightarrow> string option" where
  "asString v = (case v of JStr s \<Rightarrow> (if s \<noteq> [] then Some s else None) | _ \<Rightarrow> None)"

definition asBoolean :: "json \<Rightarrow> bool option" where
  "asBoolean v = (case v of JBool b \<Rightarrow> Some b | _ \<Rightarrow> None)"

definition asNumber :: "json \<Rightarrow> jsnumber option" where
  "asNumber v = (case v of JNum (Finite q) \<Rightarrow> Some (Finite q) | _ \<Rightarrow> None)"

text \<open>
  \<^verbatim>\<open>asText\<close> turns a number or a boolean into text with \<^verbatim>\<open>String\<close> and an object
  or an array with \<^verbatim>\<open>JSON.stringify\<close> (with \<^verbatim>\<open>String\<close> when that throws). Both belong
  to the JavaScript runtime; \<open>render\<close> stands for them.
\<close>

definition asText :: "(json \<Rightarrow> string) \<Rightarrow> json \<Rightarrow> string option" where
  "asText render v = (case v of
       JStr s \<Rightarrow> Some s
     | JUndef \<Rightarrow> None
     | JNull \<Rightarrow> None
     | _ \<Rightarrow> Some (render v))"

definition extractItemId :: "json \<Rightarrow> string option" where
  "extractItemId params =
     (case asString (coalesce [fld params ''itemId'', fld params ''item_id'', fld params ''id'']) of
        Some direct \<Rightarrow> Some direct
      | None \<Rightarrow>
          (case asRecord (fld params ''item'') of
             Some item \<Rightarrow> asString (coalesce [fld item ''id'', fld item ''itemId'', fld item ''item_id''])
           | None \<Rightarrow> None))"

definition extractItem :: "json \<Rightarrow> json" where
  "extractItem params = (case asRecord (fld params ''item'') of Some item \<Rightarrow> item | None \<Rightarrow> params)"

definition normalizeItemType :: "json \<Rightarrow> string option" where
  "normalizeItemType v =
     (case asString v of
        None \<Rightarrow> None
      | Some raw \<Rightarrow>
          Some (filter (\<lambda>c. \<not> (isSpace c \<or> c = CHR ''_'' \<or> c = CHR ''-'')) (toLowerCase raw)))"

fun stringParts :: "json list \<Rightarrow> string list" where
  "stringParts [] = []"
| "stringParts (JStr s # vs) = s # stringParts vs"
| "stringParts (_ # vs) = stringParts vs"

definition extractCommand :: "json \<Rightarrow> string option" where
  "extractCommand v = (case v of
       JStr s \<Rightarrow> Some s
     | JArr vs \<Rightarrow> (let parts = stringParts vs in if parts \<noteq> [] then Some (joinSpace parts) else None)
     | _ \<Rightarrow> None)"

fun collectChanges :: "fields \<Rightarrow> json list \<Rightarrow> fields" where
  "collectChanges changes [] = changes"
| "collectChanges changes (entry # rest) =
     (case asRecord entry of
        None \<Rightarrow> collectChanges changes rest
      | Some entryRecord \<Rightarrow>
          (case asString (coalesce [fld entryRecord ''path'', fld entryRecord ''file'',
                                    fld entryRecord ''filePath'', fld entryRecord ''file_path'']) of
             Some path \<Rightarrow> collectChanges (set_field path entryRecord changes) rest
           | None \<Rightarrow> collectChanges changes rest))"

definition extractChanges :: "json \<Rightarrow> json option" where
  "extractChanges v = (case v of
       JArr vs \<Rightarrow> (let changes = collectChanges [] vs in if changes \<noteq> [] then Some (JObj changes) else None)
     | _ \<Rightarrow> asRecord v)"

text \<open>The loop over the candidates: the first one that is a non-empty string.\<close>

fun firstString :: "json list \<Rightarrow> string option" where
  "firstString [] = None"
| "firstString (c # cs) = (case asString c of Some v \<Rightarrow> Some v | None \<Rightarrow> firstString cs)"

definition subRecord :: "json option \<Rightarrow> string \<Rightarrow> json option" where
  "subRecord r k = (case r of None \<Rightarrow> None | Some v \<Rightarrow> asRecord (fld v k))"

definition extractThreadId :: "json \<Rightarrow> json option \<Rightarrow> string option" where
  "extractThreadId params item =
     (let thread = asRecord (fld params ''thread'');
          turn = asRecord (fld params ''turn'');
          itemThread = subRecord item ''thread'';
          turnThread = subRecord turn ''thread''
      in firstString
           [fld params ''threadId'', fld params ''thread_id'',
            ofld thread ''id'', ofld thread ''threadId'', ofld thread ''thread_id'',
            fld params ''sid'',
            ofld turn ''threadId'', ofld turn ''thread_id'',
            ofld turnThread ''id'',
            ofld item ''threadId'', ofld item ''thread_id'',
            ofld itemThread ''id''])"

definition extractTurnId :: "json \<Rightarrow> json option \<Rightarrow> string option" where
  "extractTurnId params item =
     (let turn = asRecord (fld params ''turn'');
          itemTurn = subRecord item ''turn''
      in firstString
           [fld params ''turnId'', fld params ''turn_id'',
            ofld turn ''id'', ofld turn ''turnId'', ofld turn ''turn_id'',
            ofld item ''turnId'', ofld item ''turn_id'',
            ofld itemTurn ''id''])"

definition pickStatus :: "json \<Rightarrow> json option \<Rightarrow> string option" where
  "pickStatus params item = asString (coalesce [fld params ''status'', ofld item ''status''])"

text \<open>\<^verbatim>\<open>if (value) target[name] = value\<close> for a string that may be null.\<close>

definition setIfString :: "string \<Rightarrow> string option \<Rightarrow> fields \<Rightarrow> fields" where
  "setIfString k v target =
     (case v of Some s \<Rightarrow> (if s \<noteq> [] then set_field k (JStr s) target else target) | None \<Rightarrow> target)"

definition addStableFields :: "fields \<Rightarrow> json \<Rightarrow> json option \<Rightarrow> string option \<Rightarrow> fields" where
  "addStableFields target params item itemId =
     setIfString ''status'' (pickStatus params item)
       (setIfString ''item_id'' itemId
         (setIfString ''turn_id'' (extractTurnId params item)
           (setIfString ''thread_id'' (extractThreadId params item) target)))"

text \<open>The conditional spreads \<^verbatim>\<open>...(value ? { name: value } : {})\<close>.\<close>

definition optStr :: "string \<Rightarrow> string option \<Rightarrow> fields" where
  "optStr k v = (case v of Some s \<Rightarrow> (if s \<noteq> [] then [(k, JStr s)] else []) | None \<Rightarrow> [])"

definition optBool :: "string \<Rightarrow> bool option \<Rightarrow> fields" where
  "optBool k v = (case v of Some b \<Rightarrow> [(k, JBool b)] | None \<Rightarrow> [])"

definition optNum :: "string \<Rightarrow> jsnumber option \<Rightarrow> fields" where
  "optNum k v = (case v of Some n \<Rightarrow> [(k, JNum n)] | None \<Rightarrow> [])"

definition optVal :: "string \<Rightarrow> json option \<Rightarrow> fields" where
  "optVal k v = (case v of Some x \<Rightarrow> [(k, x)] | None \<Rightarrow> [])"

text \<open>An object literal, written as its parts in source order: plain properties and spreads.\<close>

definition objLit :: "fields list \<Rightarrow> fields" where
  "objLit parts = foldl spread [] parts"

text \<open>\<^verbatim>\<open>a ?? b\<close> on values that may be null.\<close>

definition orElse :: "'a option \<Rightarrow> 'a option \<Rightarrow> 'a option" where
  "orElse a b = (case a of Some x \<Rightarrow> Some x | None \<Rightarrow> b)"

definition orDefault :: "'a option \<Rightarrow> 'a \<Rightarrow> 'a" where
  "orDefault a d = (case a of Some x \<Rightarrow> x | None \<Rightarrow> d)"

section \<open>The event converter\<close>

record converter =
  agentMessageBuffers :: "string \<rightharpoonup> string"
  reasoningBuffers :: "string \<rightharpoonup> string"
  planBuffers :: "string \<rightharpoonup> string"
  commandOutputBuffers :: "string \<rightharpoonup> string"
  fileChangeOutputBuffers :: "string \<rightharpoonup> string"
  commandMeta :: "string \<rightharpoonup> fields"
  fileChangeMeta :: "string \<rightharpoonup> fields"

definition newConverter :: converter where
  "newConverter =
     \<lparr> agentMessageBuffers = Map.empty, reasoningBuffers = Map.empty, planBuffers = Map.empty,
       commandOutputBuffers = Map.empty, fileChangeOutputBuffers = Map.empty,
       commandMeta = Map.empty, fileChangeMeta = Map.empty \<rparr>"

definition reset :: "converter \<Rightarrow> converter" where
  "reset s =
     s\<lparr> agentMessageBuffers := Map.empty, reasoningBuffers := Map.empty, planBuffers := Map.empty,
        commandOutputBuffers := Map.empty, fileChangeOutputBuffers := Map.empty,
        commandMeta := Map.empty, fileChangeMeta := Map.empty \<rparr>"

type_synonym outcome = "json list \<times> converter"

subsection \<open>Thread and turn notifications\<close>

definition recordOr :: "json \<Rightarrow> json \<Rightarrow> json" where
  "recordOr v d = (case asRecord v of Some r \<Rightarrow> r | None \<Rightarrow> d)"

definition onThreadStarted :: "json \<Rightarrow> json list" where
  "onThreadStarted paramsRecord =
     (let thread = recordOr (fld paramsRecord ''thread'') paramsRecord
      in case asString (coalesce [fld thread ''threadId'', fld thread ''thread_id'', fld thread ''id'']) of
           Some threadId \<Rightarrow> [JObj [(''type'', JStr ''thread_started''), (''thread_id'', JStr threadId)]]
         | None \<Rightarrow> [])"

definition onTurnStarted :: "json \<Rightarrow> json list" where
  "onTurnStarted paramsRecord =
     (let turn = recordOr (fld paramsRecord ''turn'') paramsRecord;
          turnId = asString (coalesce [fld turn ''turnId'', fld turn ''turn_id'', fld turn ''id''])
      in [JObj (addStableFields
                  (objLit [[(''type'', JStr ''task_started'')], optStr ''turn_id'' turnId])
                  paramsRecord None None)])"

definition turnStatus :: "json \<Rightarrow> string option" where
  "turnStatus paramsRecord =
     (let turn = recordOr (fld paramsRecord ''turn'') paramsRecord
      in map_option toLowerCase (asString (coalesce [fld paramsRecord ''status'', fld turn ''status''])))"

definition turnErrorMessage :: "json \<Rightarrow> string option" where
  "turnErrorMessage paramsRecord =
     asString (coalesce [fld paramsRecord ''error'', fld paramsRecord ''message'', fld paramsRecord ''reason''])"

definition onTurnCompleted :: "json \<Rightarrow> json list" where
  "onTurnCompleted paramsRecord =
     (let turn = recordOr (fld paramsRecord ''turn'') paramsRecord;
          status = turnStatus paramsRecord;
          turnId = asString (coalesce [fld turn ''turnId'', fld turn ''turn_id'', fld turn ''id'']);
          errorMessage = turnErrorMessage paramsRecord
      in if status = Some ''interrupted'' \<or> status = Some ''cancelled'' \<or> status = Some ''canceled''
         then [JObj (addStableFields
                  (objLit [[(''type'', JStr ''turn_aborted'')], optStr ''turn_id'' turnId])
                  paramsRecord None None)]
         else if status = Some ''failed'' \<or> status = Some ''error''
         then [JObj (addStableFields
                  (objLit [[(''type'', JStr ''task_failed'')], optStr ''turn_id'' turnId,
                           optStr ''error'' errorMessage])
                  paramsRecord None None)]
         else [JObj (addStableFields
                  (objLit [[(''type'', JStr ''task_complete'')], optStr ''turn_id'' turnId])
                  paramsRecord None None)])"

definition onTurnDiffUpdated :: "json \<Rightarrow> json list" where
  "onTurnDiffUpdated paramsRecord =
     (case asString (coalesce [fld paramsRecord ''diff'', fld paramsRecord ''unified_diff'',
                               fld paramsRecord ''unifiedDiff'']) of
        Some diff \<Rightarrow>
          [JObj (addStableFields [(''type'', JStr ''turn_diff''), (''unified_diff'', JStr diff)]
                   paramsRecord None None)]
      | None \<Rightarrow> [])"

definition arrayOrNull :: "json \<Rightarrow> json option" where
  "arrayOrNull v = (case v of JArr _ \<Rightarrow> Some v | _ \<Rightarrow> None)"

definition onTurnPlanUpdated :: "json \<Rightarrow> json list" where
  "onTurnPlanUpdated paramsRecord =
     (let explanation = asString (fld paramsRecord ''explanation'');
          plan = arrayOrNull (fld paramsRecord ''plan'')
      in [JObj (addStableFields
                  (objLit [[(''type'', JStr ''turn_plan_updated'')],
                           optStr ''explanation'' explanation, optVal ''plan'' plan])
                  paramsRecord None None)])"

definition onTokenUsageUpdated :: "json \<Rightarrow> json list" where
  "onTokenUsageUpdated paramsRecord =
     (let info = recordOr (coalesce [fld paramsRecord ''tokenUsage'', fld paramsRecord ''token_usage'',
                                     paramsRecord]) (JObj [])
      in [JObj (addStableFields [(''type'', JStr ''token_count''), (''info'', info)]
                  paramsRecord None None)])"

subsection \<open>The error notification\<close>

definition errorWillRetry :: "json \<Rightarrow> bool" where
  "errorWillRetry paramsRecord =
     orDefault (asBoolean (coalesce [fld paramsRecord ''will_retry'', fld paramsRecord ''willRetry''])) False"

definition errorCodexErrorInfo :: "json \<Rightarrow> json option" where
  "errorCodexErrorInfo paramsRecord =
     (let errorRecord = asRecord (fld paramsRecord ''error'')
      in asRecord (coalesce [fld paramsRecord ''codexErrorInfo'', fld paramsRecord ''codex_error_info'',
                             ofld errorRecord ''codexErrorInfo'', ofld errorRecord ''codex_error_info'']))"

definition errorAdditionalDetails :: "json \<Rightarrow> json option" where
  "errorAdditionalDetails paramsRecord =
     (let errorRecord = asRecord (fld paramsRecord ''error'')
      in asRecord (coalesce [fld paramsRecord ''additionalDetails'', fld paramsRecord ''additional_details'',
                             ofld errorRecord ''additionalDetails'', ofld errorRecord ''additional_details'']))"

definition errorHttpStatusCode :: "json \<Rightarrow> jsnumber option" where
  "errorHttpStatusCode paramsRecord =
     (let codexErrorInfo = errorCodexErrorInfo paramsRecord
      in asNumber (coalesce [ofld codexErrorInfo ''httpStatusCode'', ofld codexErrorInfo ''http_status_code'',
                             fld paramsRecord ''httpStatusCode'', fld paramsRecord ''http_status_code'']))"

definition errorMessageOf :: "json \<Rightarrow> string" where
  "errorMessageOf paramsRecord =
     (let errorRecord = asRecord (fld paramsRecord ''error'')
      in orDefault
           (orElse (asString (fld paramsRecord ''message''))
             (orElse (asString (ofld errorRecord ''message''))
               (asString (fld paramsRecord ''reason''))))
           ''Unknown app-server error'')"

definition onError :: "json \<Rightarrow> json list" where
  "onError paramsRecord =
     (if errorWillRetry paramsRecord then []
      else [JObj (addStableFields
                    (objLit [[(''type'', JStr ''task_failed''),
                              (''error'', JStr (errorMessageOf paramsRecord))],
                             optVal ''codex_error_info'' (errorCodexErrorInfo paramsRecord),
                             optVal ''additional_details'' (errorAdditionalDetails paramsRecord),
                             optNum ''http_status_code'' (errorHttpStatusCode paramsRecord)])
                    paramsRecord None None)])"

subsection \<open>Streamed deltas\<close>

text \<open>\<^verbatim>\<open>buffers.set(itemId, (buffers.get(itemId) ?? '') + delta)\<close>\<close>

definition appendTo :: "(string \<rightharpoonup> string) \<Rightarrow> string \<Rightarrow> string \<Rightarrow> (string \<rightharpoonup> string)" where
  "appendTo buffers itemId delta = buffers(itemId \<mapsto> orDefault (buffers itemId) [] @ delta)"

definition deltaString :: "json \<Rightarrow> string option" where
  "deltaString paramsRecord =
     asString (coalesce [fld paramsRecord ''delta'', fld paramsRecord ''text'', fld paramsRecord ''message''])"

definition onAgentMessageDelta :: "converter \<Rightarrow> json \<Rightarrow> outcome" where
  "onAgentMessageDelta s paramsRecord =
     (case (extractItemId paramsRecord, deltaString paramsRecord) of
        (Some itemId, Some delta) \<Rightarrow>
          ([], s\<lparr>agentMessageBuffers := appendTo (agentMessageBuffers s) itemId delta\<rparr>)
      | _ \<Rightarrow> ([], s))"

definition onPlanDelta :: "converter \<Rightarrow> json \<Rightarrow> outcome" where
  "onPlanDelta s paramsRecord =
     (case (extractItemId paramsRecord, deltaString paramsRecord) of
        (Some itemId, Some delta) \<Rightarrow>
          (let next = orDefault (planBuffers s itemId) [] @ delta
           in ([JObj (addStableFields
                        [(''type'', JStr ''agent_plan_delta''), (''item_id'', JStr itemId),
                         (''delta'', JStr delta), (''plan_text'', JStr next)]
                        paramsRecord None (Some itemId))],
               s\<lparr>planBuffers := (planBuffers s)(itemId \<mapsto> next)\<rparr>))
      | _ \<Rightarrow> ([], s))"

definition onReasoningDelta :: "converter \<Rightarrow> string \<Rightarrow> json \<Rightarrow> outcome" where
  "onReasoningDelta s method paramsRecord =
     (let itemId = orDefault (extractItemId paramsRecord) ''reasoning'';
          summaryIndex = asNumber (coalesce [fld paramsRecord ''summaryIndex'', fld paramsRecord ''summary_index''])
      in case deltaString paramsRecord of
           Some delta \<Rightarrow>
             ([JObj (addStableFields
                       (objLit [[(''type'', JStr ''agent_reasoning_delta''), (''delta'', JStr delta),
                                 (''item_id'', JStr itemId)],
                                (if method = ''item/reasoning/summaryTextDelta''
                                 then [(''reasoning_stream'', JStr ''summary'')]
                                 else [(''reasoning_stream'', JStr ''raw'')]),
                                optNum ''summary_index'' summaryIndex])
                       paramsRecord None (Some itemId))],
              s\<lparr>reasoningBuffers := appendTo (reasoningBuffers s) itemId delta\<rparr>)
         | None \<Rightarrow> ([], s))"

definition onSummaryPartAdded :: "json \<Rightarrow> json list" where
  "onSummaryPartAdded paramsRecord =
     [JObj (addStableFields [(''type'', JStr ''agent_reasoning_section_break'')] paramsRecord None None)]"

text \<open>\<^verbatim>\<open>if (itemId && delta)\<close> on a text that may be null or empty.\<close>

definition nonEmpty :: "string option \<Rightarrow> string option" where
  "nonEmpty v = (case v of Some t \<Rightarrow> (if t \<noteq> [] then Some t else None) | None \<Rightarrow> None)"

definition onCommandOutputDelta :: "(json \<Rightarrow> string) \<Rightarrow> converter \<Rightarrow> json \<Rightarrow> outcome" where
  "onCommandOutputDelta render s paramsRecord =
     (case (extractItemId paramsRecord,
            nonEmpty (asText render (coalesce [fld paramsRecord ''delta'', fld paramsRecord ''text'',
                                               fld paramsRecord ''output'', fld paramsRecord ''stdout'']))) of
        (Some itemId, Some delta) \<Rightarrow>
          ([], s\<lparr>commandOutputBuffers := appendTo (commandOutputBuffers s) itemId delta\<rparr>)
      | _ \<Rightarrow> ([], s))"

definition onFileChangeOutputDelta :: "(json \<Rightarrow> string) \<Rightarrow> converter \<Rightarrow> json \<Rightarrow> outcome" where
  "onFileChangeOutputDelta render s paramsRecord =
     (case (extractItemId paramsRecord,
            nonEmpty (asText render (coalesce [fld paramsRecord ''delta'', fld paramsRecord ''text'',
                                               fld paramsRecord ''output'', fld paramsRecord ''stdout'',
                                               fld paramsRecord ''response'']))) of
        (Some itemId, Some delta) \<Rightarrow>
          ([JObj (addStableFields
                    [(''type'', JStr ''patch_apply_delta''), (''item_id'', JStr itemId), (''delta'', JStr delta)]
                    paramsRecord None (Some itemId))],
           s\<lparr>fileChangeOutputBuffers := appendTo (fileChangeOutputBuffers s) itemId delta\<rparr>)
      | _ \<Rightarrow> ([], s))"

subsection \<open>Items: messages, reasoning and plans\<close>

definition itemText :: "json \<Rightarrow> string option" where
  "itemText item = asString (coalesce [fld item ''text'', fld item ''message'', fld item ''content''])"

definition itemStatus :: "json \<Rightarrow> string option" where
  "itemStatus item = asString (fld item ''status'')"

definition onAgentMessageItem :: "converter \<Rightarrow> string \<Rightarrow> json \<Rightarrow> json \<Rightarrow> string \<Rightarrow> outcome" where
  "onAgentMessageItem s method paramsRecord item itemId =
     (if method = ''item/completed''
      then ((case nonEmpty (orElse (itemText item) (agentMessageBuffers s itemId)) of
               Some text \<Rightarrow>
                 [JObj (addStableFields
                          (objLit [[(''type'', JStr ''agent_message''), (''message'', JStr text),
                                    (''item_id'', JStr itemId)],
                                   optStr ''status'' (itemStatus item)])
                          paramsRecord (Some item) (Some itemId))]
             | None \<Rightarrow> []),
            s\<lparr>agentMessageBuffers := (agentMessageBuffers s)(itemId := None)\<rparr>)
      else ([], s))"

definition onReasoningItem :: "converter \<Rightarrow> string \<Rightarrow> json \<Rightarrow> json \<Rightarrow> string \<Rightarrow> outcome" where
  "onReasoningItem s method paramsRecord item itemId =
     (if method = ''item/completed''
      then ((case nonEmpty (orElse (itemText item) (reasoningBuffers s itemId)) of
               Some text \<Rightarrow>
                 [JObj (addStableFields
                          (objLit [[(''type'', JStr ''agent_reasoning''), (''text'', JStr text),
                                    (''item_id'', JStr itemId)],
                                   optStr ''status'' (itemStatus item)])
                          paramsRecord (Some item) (Some itemId))]
             | None \<Rightarrow> []),
            s\<lparr>reasoningBuffers := (reasoningBuffers s)(itemId := None)\<rparr>)
      else ([], s))"

definition onPlanItem :: "converter \<Rightarrow> string \<Rightarrow> json \<Rightarrow> json \<Rightarrow> string \<Rightarrow> outcome" where
  "onPlanItem s method paramsRecord item itemId =
     (if method = ''item/started''
      then (let text = itemText item
            in ([JObj (addStableFields
                         (objLit [[(''type'', JStr ''plan_item_started''), (''call_id'', JStr itemId),
                                   (''item_id'', JStr itemId)],
                                  optStr ''text'' text, optStr ''status'' (itemStatus item)])
                         paramsRecord (Some item) (Some itemId))],
                (case text of
                   Some t \<Rightarrow> s\<lparr>planBuffers := (planBuffers s)(itemId \<mapsto> t)\<rparr>
                 | None \<Rightarrow> s)))
      else if method = ''item/completed''
      then (let text = orElse (itemText item) (planBuffers s itemId)
            in ([JObj (addStableFields
                         (objLit [[(''type'', JStr ''plan_item_completed''), (''call_id'', JStr itemId),
                                   (''item_id'', JStr itemId)],
                                  optStr ''text'' text, optStr ''status'' (itemStatus item)])
                         paramsRecord (Some item) (Some itemId))],
                s\<lparr>planBuffers := (planBuffers s)(itemId := None)\<rparr>))
      else ([], s))"

subsection \<open>Items: commands and file changes\<close>

definition commandMetaOf :: "json \<Rightarrow> string option \<Rightarrow> string option \<Rightarrow> fields" where
  "commandMetaOf item threadId turnId =
     objLit [optStr ''command'' (extractCommand (coalesce [fld item ''command'', fld item ''cmd'', fld item ''args''])),
             optStr ''cwd'' (asString (coalesce [fld item ''cwd'', fld item ''workingDirectory'',
                                                 fld item ''working_directory''])),
             optBool ''auto_approved'' (asBoolean (coalesce [fld item ''autoApproved'', fld item ''auto_approved''])),
             optStr ''thread_id'' threadId,
             optStr ''turn_id'' turnId]"

definition commandEndEvent ::
  "(json \<Rightarrow> string) \<Rightarrow> fields \<Rightarrow> string option \<Rightarrow> json \<Rightarrow> json \<Rightarrow> string \<Rightarrow> json" where
  "commandEndEvent render meta buffered paramsRecord item itemId =
     (let output = orElse (asText render (coalesce [fld item ''output'', fld item ''result'', fld item ''stdout'']))
                     buffered;
          stderr = asText render (fld item ''stderr'');
          error = asText render (fld item ''error'');
          exitCode = asNumber (coalesce [fld item ''exitCode'', fld item ''exit_code'', fld item ''exitcode''])
      in JObj (addStableFields
                 (objLit [[(''type'', JStr ''exec_command_end''), (''call_id'', JStr itemId),
                           (''item_id'', JStr itemId)],
                          meta,
                          optStr ''output'' output, optStr ''stderr'' stderr, optStr ''error'' error,
                          optNum ''exit_code'' exitCode, optStr ''status'' (itemStatus item)])
                 paramsRecord (Some item) (Some itemId)))"

definition onCommandExecutionItem ::
  "(json \<Rightarrow> string) \<Rightarrow> converter \<Rightarrow> string \<Rightarrow> json \<Rightarrow> json \<Rightarrow> string \<Rightarrow> outcome" where
  "onCommandExecutionItem render s method paramsRecord item itemId =
     (if method = ''item/started''
      then (let meta = commandMetaOf item (extractThreadId paramsRecord (Some item))
                         (extractTurnId paramsRecord (Some item))
            in ([JObj (addStableFields
                         (objLit [[(''type'', JStr ''exec_command_begin''), (''call_id'', JStr itemId),
                                   (''item_id'', JStr itemId)],
                                  meta, optStr ''status'' (itemStatus item)])
                         paramsRecord (Some item) (Some itemId))],
                s\<lparr>commandMeta := (commandMeta s)(itemId \<mapsto> meta)\<rparr>))
      else if method = ''item/completed''
      then ([commandEndEvent render (orDefault (commandMeta s itemId) [])
               (commandOutputBuffers s itemId) paramsRecord item itemId],
            s\<lparr>commandMeta := (commandMeta s)(itemId := None),
               commandOutputBuffers := (commandOutputBuffers s)(itemId := None)\<rparr>)
      else ([], s))"

definition fileChangeMetaOf :: "json \<Rightarrow> string option \<Rightarrow> string option \<Rightarrow> fields" where
  "fileChangeMetaOf item threadId turnId =
     objLit [optVal ''changes'' (extractChanges (coalesce [fld item ''changes'', fld item ''change'', fld item ''diff''])),
             optBool ''auto_approved'' (asBoolean (coalesce [fld item ''autoApproved'', fld item ''auto_approved''])),
             optStr ''thread_id'' threadId,
             optStr ''turn_id'' turnId]"

text \<open>\<^verbatim>\<open>asBoolean(item.success ?? item.ok ?? item.applied ?? item.status === 'completed') ?? false\<close>\<close>

definition patchSuccess :: "json \<Rightarrow> bool" where
  "patchSuccess item =
     orDefault
       (asBoolean (coalesce [fld item ''success'', fld item ''ok'', fld item ''applied'',
                             JBool (fld item ''status'' = JStr ''completed'')]))
       False"

definition patchEndEvent ::
  "(json \<Rightarrow> string) \<Rightarrow> fields \<Rightarrow> string option \<Rightarrow> json \<Rightarrow> json \<Rightarrow> string \<Rightarrow> json" where
  "patchEndEvent render meta buffered paramsRecord item itemId =
     (let stdout = orElse (asText render (coalesce [fld item ''stdout'', fld item ''output''])) buffered;
          stderr = asText render (fld item ''stderr'')
      in JObj (addStableFields
                 (objLit [[(''type'', JStr ''patch_apply_end''), (''call_id'', JStr itemId),
                           (''item_id'', JStr itemId)],
                          meta,
                          optStr ''stdout'' stdout, optStr ''stderr'' stderr,
                          [(''success'', JBool (patchSuccess item))],
                          optStr ''status'' (itemStatus item)])
                 paramsRecord (Some item) (Some itemId)))"

definition onFileChangeItem ::
  "(json \<Rightarrow> string) \<Rightarrow> converter \<Rightarrow> string \<Rightarrow> json \<Rightarrow> json \<Rightarrow> string \<Rightarrow> outcome" where
  "onFileChangeItem render s method paramsRecord item itemId =
     (if method = ''item/started''
      then (let meta = fileChangeMetaOf item (extractThreadId paramsRecord (Some item))
                         (extractTurnId paramsRecord (Some item))
            in ([JObj (addStableFields
                         (objLit [[(''type'', JStr ''patch_apply_begin''), (''call_id'', JStr itemId),
                                   (''item_id'', JStr itemId)],
                                  meta, optStr ''status'' (itemStatus item)])
                         paramsRecord (Some item) (Some itemId))],
                s\<lparr>fileChangeMeta := (fileChangeMeta s)(itemId \<mapsto> meta)\<rparr>))
      else if method = ''item/completed''
      then ([patchEndEvent render (orDefault (fileChangeMeta s itemId) [])
               (fileChangeOutputBuffers s itemId) paramsRecord item itemId],
            s\<lparr>fileChangeMeta := (fileChangeMeta s)(itemId := None),
               fileChangeOutputBuffers := (fileChangeOutputBuffers s)(itemId := None)\<rparr>)
      else ([], s))"

subsection \<open>Items: tool calls, searches, images, review mode, compaction\<close>

text \<open>The result part shared by the four end events:
  \<^verbatim>\<open>output: item.result ?? item.output ?? null, error: item.error ?? null\<close>.\<close>

definition resultFields :: "json \<Rightarrow> fields" where
  "resultFields item =
     [(''output'', coalesce [fld item ''result'', fld item ''output'', JNull]),
      (''error'', coalesce [fld item ''error'', JNull])]"

definition mcpName :: "json \<Rightarrow> string" where
  "mcpName item =
     (case (asString (fld item ''server''), asString (fld item ''tool'')) of
        (Some server, Some tool) \<Rightarrow> ''mcp__'' @ server @ ''__'' @ tool
      | (_, tool) \<Rightarrow> orDefault tool ''mcp_tool_call'')"

definition onMcpToolCallItem :: "string \<Rightarrow> json \<Rightarrow> json \<Rightarrow> string \<Rightarrow> json list" where
  "onMcpToolCallItem method paramsRecord item itemId =
     (if method = ''item/started''
      then [JObj (addStableFields
                    (objLit [[(''type'', JStr ''mcp_tool_call_begin''), (''call_id'', JStr itemId),
                              (''item_id'', JStr itemId), (''name'', JStr (mcpName item)),
                              (''input'', coalesce [fld item ''arguments'', fld item ''input'', JNull])],
                             optStr ''status'' (itemStatus item)])
                    paramsRecord (Some item) (Some itemId))]
      else [JObj (addStableFields
                    (objLit [[(''type'', JStr ''mcp_tool_call_end''), (''call_id'', JStr itemId),
                              (''item_id'', JStr itemId), (''name'', JStr (mcpName item))],
                             resultFields item, optStr ''status'' (itemStatus item)])
                    paramsRecord (Some item) (Some itemId))])"

definition onCollabToolCallItem :: "string \<Rightarrow> json \<Rightarrow> json \<Rightarrow> string \<Rightarrow> json list" where
  "onCollabToolCallItem method paramsRecord item itemId =
     (let tool = orDefault (asString (fld item ''tool'')) ''collab_tool_call''
      in if method = ''item/started''
         then [JObj (addStableFields
                       (objLit [[(''type'', JStr ''collab_tool_call_begin''), (''call_id'', JStr itemId),
                                 (''item_id'', JStr itemId), (''name'', JStr tool),
                                 (''input'', JObj
                                    [(''sender_thread_id'', coalesce [fld item ''senderThreadId'', fld item ''sender_thread_id'']),
                                     (''receiver_thread_id'', coalesce [fld item ''receiverThreadId'', fld item ''receiver_thread_id'']),
                                     (''new_thread_id'', coalesce [fld item ''newThreadId'', fld item ''new_thread_id'']),
                                     (''prompt'', fld item ''prompt''),
                                     (''agent_status'', coalesce [fld item ''agentStatus'', fld item ''agent_status''])])],
                                optStr ''status'' (itemStatus item)])
                       paramsRecord (Some item) (Some itemId))]
         else [JObj (addStableFields
                       (objLit [[(''type'', JStr ''collab_tool_call_end''), (''call_id'', JStr itemId),
                                 (''item_id'', JStr itemId), (''name'', JStr tool)],
                                resultFields item, optStr ''status'' (itemStatus item)])
                       paramsRecord (Some item) (Some itemId))])"

definition onWebSearchItem :: "string \<Rightarrow> json \<Rightarrow> json \<Rightarrow> string \<Rightarrow> json list" where
  "onWebSearchItem method paramsRecord item itemId =
     (if method = ''item/started''
      then [JObj (addStableFields
                    (objLit [[(''type'', JStr ''web_search_begin''), (''call_id'', JStr itemId),
                              (''item_id'', JStr itemId), (''name'', JStr ''web_search''),
                              (''input'', JObj [(''query'', fld item ''query''),
                                                (''action'', coalesce [fld item ''action'', JNull])])],
                             optStr ''status'' (itemStatus item)])
                    paramsRecord (Some item) (Some itemId))]
      else [JObj (addStableFields
                    (objLit [[(''type'', JStr ''web_search_end''), (''call_id'', JStr itemId),
                              (''item_id'', JStr itemId), (''name'', JStr ''web_search'')],
                             resultFields item, optStr ''status'' (itemStatus item)])
                    paramsRecord (Some item) (Some itemId))])"

definition onImageViewItem :: "string \<Rightarrow> json \<Rightarrow> json \<Rightarrow> string \<Rightarrow> json list" where
  "onImageViewItem method paramsRecord item itemId =
     (if method = ''item/started''
      then [JObj (addStableFields
                    (objLit [[(''type'', JStr ''image_view_begin''), (''call_id'', JStr itemId),
                              (''item_id'', JStr itemId), (''name'', JStr ''image_view''),
                              (''input'', JObj [(''path'', (case asString (fld item ''path'') of
                                                             Some path \<Rightarrow> JStr path | None \<Rightarrow> JNull))])],
                             optStr ''status'' (itemStatus item)])
                    paramsRecord (Some item) (Some itemId))]
      else [JObj (addStableFields
                    (objLit [[(''type'', JStr ''image_view_end''), (''call_id'', JStr itemId),
                              (''item_id'', JStr itemId), (''name'', JStr ''image_view'')],
                             resultFields item, optStr ''status'' (itemStatus item)])
                    paramsRecord (Some item) (Some itemId))])"

definition onReviewModeItem :: "string \<Rightarrow> json \<Rightarrow> json \<Rightarrow> string \<Rightarrow> json list" where
  "onReviewModeItem eventType paramsRecord item itemId =
     [JObj (addStableFields
              (objLit [[(''type'', JStr eventType), (''call_id'', JStr itemId), (''item_id'', JStr itemId),
                        (''review'', coalesce [fld item ''review'', JNull])],
                       optStr ''status'' (itemStatus item)])
              paramsRecord (Some item) (Some itemId))]"

definition onContextCompactionItem :: "string \<Rightarrow> json \<Rightarrow> json \<Rightarrow> string \<Rightarrow> json list" where
  "onContextCompactionItem method paramsRecord item itemId =
     [JObj (addStableFields
              (objLit [[(''type'', JStr (if method = ''item/started'' then ''context_compaction_started''
                                         else ''context_compaction_completed'')),
                        (''call_id'', JStr itemId), (''item_id'', JStr itemId)],
                       optStr ''status'' (itemStatus item)])
              paramsRecord (Some item) (Some itemId))]"

subsection \<open>The dispatcher\<close>

definition itemTypeOf :: "json \<Rightarrow> string option" where
  "itemTypeOf item = normalizeItemType (coalesce [fld item ''type'', fld item ''itemType'', fld item ''kind''])"

definition itemIdOf :: "json \<Rightarrow> json \<Rightarrow> string option" where
  "itemIdOf paramsRecord item =
     orElse (extractItemId paramsRecord)
       (asString (coalesce [fld item ''id'', fld item ''itemId'', fld item ''item_id'']))"

definition onItem :: "(json \<Rightarrow> string) \<Rightarrow> converter \<Rightarrow> string \<Rightarrow> json \<Rightarrow> outcome" where
  "onItem render s method paramsRecord =
     (let item = extractItem paramsRecord
      in case (nonEmpty (itemTypeOf item), itemIdOf paramsRecord item) of
           (Some itemType, Some itemId) \<Rightarrow>
             (if itemType = ''agentmessage'' then onAgentMessageItem s method paramsRecord item itemId
              else if itemType = ''reasoning'' then onReasoningItem s method paramsRecord item itemId
              else if itemType = ''plan'' then onPlanItem s method paramsRecord item itemId
              else if itemType = ''commandexecution''
                then onCommandExecutionItem render s method paramsRecord item itemId
              else if itemType = ''filechange'' then onFileChangeItem render s method paramsRecord item itemId
              else if itemType = ''mcptoolcall'' then (onMcpToolCallItem method paramsRecord item itemId, s)
              else if itemType = ''collabtoolcall'' then (onCollabToolCallItem method paramsRecord item itemId, s)
              else if itemType = ''websearch'' then (onWebSearchItem method paramsRecord item itemId, s)
              else if itemType = ''imageview'' then (onImageViewItem method paramsRecord item itemId, s)
              else if itemType = ''enteredreviewmode''
                then (onReviewModeItem ''review_mode_entered'' paramsRecord item itemId, s)
              else if itemType = ''exitedreviewmode''
                then (onReviewModeItem ''review_mode_exited'' paramsRecord item itemId, s)
              else if itemType = ''contextcompaction''
                then (onContextCompactionItem method paramsRecord item itemId, s)
              else ([], s))
         | _ \<Rightarrow> ([], s))"

text \<open>\<^verbatim>\<open>handleNotification(method, params)\<close>: the events returned and the converter after the
  call. A method that no branch handles is logged and yields nothing.\<close>

definition handleNotification :: "(json \<Rightarrow> string) \<Rightarrow> converter \<Rightarrow> string \<Rightarrow> json \<Rightarrow> outcome" where
  "handleNotification render s method params =
     (let paramsRecord = recordOr params (JObj [])
      in if method = ''thread/started'' \<or> method = ''thread/resumed'' then (onThreadStarted paramsRecord, s)
         else if method = ''turn/started'' then (onTurnStarted paramsRecord, s)
         else if method = ''turn/completed'' then (onTurnCompleted paramsRecord, s)
         else if method = ''turn/diff/updated'' then (onTurnDiffUpdated paramsRecord, s)
         else if method = ''turn/plan/updated'' then (onTurnPlanUpdated paramsRecord, s)
         else if method = ''thread/tokenUsage/updated'' then (onTokenUsageUpdated paramsRecord, s)
         else if method = ''error'' then (onError paramsRecord, s)
         else if method = ''item/agentMessage/delta'' then onAgentMessageDelta s paramsRecord
         else if method = ''item/plan/delta'' then onPlanDelta s paramsRecord
         else if method = ''item/reasoning/summaryTextDelta'' \<or> method = ''item/reasoning/textDelta''
           then onReasoningDelta s method paramsRecord
         else if method = ''item/reasoning/summaryPartAdded'' then (onSummaryPartAdded paramsRecord, s)
         else if method = ''item/commandExecution/outputDelta'' then onCommandOutputDelta render s paramsRecord
         else if method = ''item/fileChange/outputDelta'' then onFileChangeOutputDelta render s paramsRecord
         else if method = ''item/started'' \<or> method = ''item/completed'' then onItem render s method paramsRecord
         else ([], s))"

text \<open>A sequence of notifications, handled in arrival order; the events of all of them.\<close>

fun handleAll :: "(json \<Rightarrow> string) \<Rightarrow> converter \<Rightarrow> (string \<times> json) list \<Rightarrow> outcome" where
  "handleAll render s [] = ([], s)"
| "handleAll render s ((method, params) # rest) =
     (let (events, s') = handleNotification render s method params;
          (events', s'') = handleAll render s' rest
      in (events @ events', s''))"

section \<open>The remote launcher's event handler\<close>

text \<open>
  Everything \<^verbatim>\<open>handleCodexEvent\<close> does to its collaborators is recorded, in order: the
  messages and session events sent, the lines added to the message buffer, the calls to the
  session, to the reasoning processor and to the diff processor. What the two processors send
  in turn is theirs and is not part of the record.
\<close>

datatype effect =
    SendCodexMessage json
  | SendSessionEvent json
  | AddMessage string string
  | OnSessionFound string
  | OnThinkingChange bool
  | ReasoningSectionBreak
  | ReasoningProcessDelta string
  | ReasoningComplete string
  | DiffProcessDiff string
  | DiffReset

text \<open>
  The launcher's state as the handler sees it. \<open>uuidCount\<close> counts the calls of
  \<^verbatim>\<open>randomUUID\<close>, whose results are the parameter \<open>uuid\<close>. \<open>thinking\<close> is
  \<^verbatim>\<open>session.thinking\<close>.
\<close>

record launcher =
  currentThreadId :: "string option"
  currentTurnId :: "string option"
  turnInFlight :: bool
  thinking :: bool
  planCallIdByTurn :: "string \<rightharpoonup> string"
  appServerEventConverter :: converter
  uuidCount :: nat
  effects :: "effect list"

definition newLauncher :: launcher where
  "newLauncher =
     \<lparr> currentThreadId = None, currentTurnId = None, turnInFlight = False, thinking = False,
       planCallIdByTurn = Map.empty, appServerEventConverter = newConverter,
       uuidCount = 0, effects = [] \<rparr>"

definition perform :: "effect \<Rightarrow> launcher \<Rightarrow> launcher" where
  "perform e s = s\<lparr>effects := effects s @ [e]\<rparr>"

definition randomUUID :: "(nat \<Rightarrow> string) \<Rightarrow> launcher \<Rightarrow> string \<times> launcher" where
  "randomUUID uuid s = (uuid (uuidCount s), s\<lparr>uuidCount := Suc (uuidCount s)\<rparr>)"

text \<open>Modelled from the spec: \<^verbatim>\<open>session.onThinkingChange\<close> (the session class is not among the
  sources) sets the thinking indicator that \<^verbatim>\<open>session.thinking\<close> reads.\<close>

definition onThinkingChange :: "bool \<Rightarrow> launcher \<Rightarrow> launcher" where
  "onThinkingChange b s = perform (OnThinkingChange b) (s\<lparr>thinking := b\<rparr>)"

definition sendReady :: "launcher \<Rightarrow> launcher" where
  "sendReady s = perform (SendSessionEvent (JObj [(''type'', JStr ''ready'')])) s"

function showNat :: "nat \<Rightarrow> string" where
  "showNat n = (if n < 10 then [char_of (48 + n)] else showNat (n div 10) @ [char_of (48 + n mod 10)])"
  by pat_completeness auto
termination
  by (relation "measure id") auto

definition normalizeCommand :: "json \<Rightarrow> string option" where
  "normalizeCommand v = (case v of
       JStr t \<Rightarrow> (let trimmed = trim t in if trimmed \<noteq> [] then Some trimmed else None)
     | JArr vs \<Rightarrow> (let joined = joinSpace (stringParts vs) in if joined \<noteq> [] then Some joined else None)
     | _ \<Rightarrow> None)"

definition formatOutputPreview :: "(json \<Rightarrow> string) \<Rightarrow> json \<Rightarrow> string" where
  "formatOutputPreview render v = (case v of
       JStr t \<Rightarrow> t
     | JUndef \<Rightarrow> []
     | JNull \<Rightarrow> []
     | _ \<Rightarrow> render v)"

text \<open>\<^verbatim>\<open>Object.keys(record).length\<close>\<close>

definition keyCount :: "json \<Rightarrow> nat" where
  "keyCount v = (case v of JObj kvs \<Rightarrow> length kvs | JArr vs \<Rightarrow> length vs | _ \<Rightarrow> 0)"

text \<open>The copy \<^verbatim>\<open>{ ...source }\<close> of an event: its own properties.\<close>

definition fieldsOf :: "json \<Rightarrow> fields" where
  "fieldsOf v = (case v of JObj kvs \<Rightarrow> kvs | _ \<Rightarrow> [])"

definition toTraceFields :: "json \<Rightarrow> fields" where
  "toTraceFields source =
     objLit [optStr ''thread_id'' (asString (coalesce [fld source ''thread_id'', fld source ''threadId''])),
             optStr ''turn_id'' (asString (coalesce [fld source ''turn_id'', fld source ''turnId''])),
             optStr ''item_id'' (asString (coalesce [fld source ''item_id'', fld source ''itemId''])),
             optStr ''status'' (asString (fld source ''status''))]"

definition stripEnvelopeFields :: "json \<Rightarrow> json" where
  "stripEnvelopeFields source =
     JObj (delete_field ''callId'' (delete_field ''call_id'' (delete_field ''type'' (fieldsOf source))))"

text \<open>The call id of an event: its call id or item id, a fresh prefixed id otherwise.\<close>

definition extractCallId :: "(nat \<Rightarrow> string) \<Rightarrow> json \<Rightarrow> string \<Rightarrow> launcher \<Rightarrow> string \<times> launcher" where
  "extractCallId uuid source prefix s =
     (case asString (coalesce [fld source ''call_id'', fld source ''callId'',
                               fld source ''item_id'', fld source ''itemId'']) of
        Some callId \<Rightarrow> (callId, s)
      | None \<Rightarrow> (let (u, s') = randomUUID uuid s in (prefix @ '':'' @ u, s')))"

definition toolCallMessage :: "string \<Rightarrow> string \<Rightarrow> json \<Rightarrow> json \<Rightarrow> string \<Rightarrow> json" where
  "toolCallMessage name callId input source messageId =
     JObj (objLit [[(''type'', JStr ''tool-call''), (''name'', JStr name), (''callId'', JStr callId),
                    (''input'', input)],
                   toTraceFields source,
                   [(''id'', JStr messageId)]])"

definition emitToolCall :: "(nat \<Rightarrow> string) \<Rightarrow> string \<Rightarrow> string \<Rightarrow> json \<Rightarrow> json \<Rightarrow> launcher \<Rightarrow> launcher" where
  "emitToolCall uuid name callId input source s =
     (let (messageId, s') = randomUUID uuid s
      in perform (SendCodexMessage (toolCallMessage name callId input source messageId)) s')"

definition toolResultMessage :: "string \<Rightarrow> json \<Rightarrow> json \<Rightarrow> bool \<Rightarrow> string \<Rightarrow> json" where
  "toolResultMessage callId output source isError messageId =
     JObj (objLit [[(''type'', JStr ''tool-call-result''), (''callId'', JStr callId),
                    (''output'', output), (''is_error'', JBool isError)],
                   toTraceFields source,
                   [(''id'', JStr messageId)]])"

definition emitToolResult :: "(nat \<Rightarrow> string) \<Rightarrow> string \<Rightarrow> json \<Rightarrow> json \<Rightarrow> bool \<Rightarrow> launcher \<Rightarrow> launcher" where
  "emitToolResult uuid callId output source isError s =
     (let (messageId, s') = randomUUID uuid s
      in perform (SendCodexMessage (toolResultMessage callId output source isError messageId)) s')"

text \<open>\<^verbatim>\<open>session.sendCodexMessage({ ...msg, id: randomUUID() })\<close>\<close>

definition passThrough :: "(nat \<Rightarrow> string) \<Rightarrow> json \<Rightarrow> launcher \<Rightarrow> launcher" where
  "passThrough uuid msg s =
     (let (messageId, s') = randomUUID uuid s
      in perform (SendCodexMessage (JObj (set_field ''id'' (JStr messageId) (fieldsOf msg)))) s')"

definition isTerminal :: "string \<Rightarrow> bool" where
  "isTerminal msgType = (msgType = ''task_complete'' \<or> msgType = ''turn_aborted'' \<or> msgType = ''task_failed'')"

subsection \<open>The parts of the handler, in source order\<close>

definition eventTurnId :: "json \<Rightarrow> string option" where
  "eventTurnId msg = asString (coalesce [fld msg ''turn_id'', fld msg ''turnId''])"

definition trackTurn :: "string \<Rightarrow> json \<Rightarrow> launcher \<Rightarrow> launcher" where
  "trackTurn msgType msg s =
     (let s1 = (if msgType = ''task_started''
                then (case eventTurnId msg of Some turnId \<Rightarrow> s\<lparr>currentTurnId := Some turnId\<rparr> | None \<Rightarrow> s)
                else s)
      in if isTerminal msgType then s1\<lparr>currentTurnId := None\<rparr> else s1)"

definition displayEvent :: "(json \<Rightarrow> string) \<Rightarrow> string \<Rightarrow> json \<Rightarrow> launcher \<Rightarrow> launcher" where
  "displayEvent render msgType msg s =
     (if msgType = ''agent_message''
      then (case asString (fld msg ''message'') of
              Some message \<Rightarrow> perform (AddMessage message ''assistant'') s
            | None \<Rightarrow> s)
      else if msgType = ''agent_reasoning''
      then (case asString (fld msg ''text'') of
              Some text \<Rightarrow> perform (AddMessage (''[Thinking] '' @ take 100 text @ ''...'') ''system'') s
            | None \<Rightarrow> s)
      else if msgType = ''exec_command_begin''
      then perform (AddMessage (''Executing: '' @ orDefault (normalizeCommand (fld msg ''command'')) ''command'')
                      ''tool'') s
      else if msgType = ''exec_command_end''
      then (let outputText = formatOutputPreview render
                               (coalesce [fld msg ''output'', fld msg ''error'', JStr ''Command completed''])
            in perform (AddMessage (''Result: '' @ take 200 outputText
                                     @ (if length outputText > 200 then ''...'' else []))
                          ''result'') s)
      else if msgType = ''patch_apply_begin''
      then (let changeCount = keyCount (recordOr (fld msg ''changes'') (JObj []))
            in perform (AddMessage (''Modifying ''
                                     @ (if changeCount = 1 then ''1 file'' else showNat changeCount @ '' files'')
                                     @ ''...'')
                          ''tool'') s)
      else if msgType = ''patch_apply_end''
      then (if truthy (fld msg ''success'')
            then perform (AddMessage (take 200 (orDefault (asString (fld msg ''stdout''))
                                                  ''Files modified successfully''))
                            ''result'') s
            else perform (AddMessage (''Error: '' @ take 200 (orDefault (asString (fld msg ''stderr''))
                                                               ''Failed to modify files''))
                            ''result'') s)
      else if msgType = ''task_started''
      then perform (AddMessage ''Starting task...'' ''status'') s
      else if msgType = ''task_complete''
      then sendReady (perform (AddMessage ''Task completed'' ''status'') s)
      else if msgType = ''turn_aborted''
      then sendReady (perform (AddMessage ''Turn aborted'' ''status'') s)
      else if msgType = ''task_failed''
      then sendReady (perform (AddMessage (case asString (fld msg ''error'') of
                                             Some error \<Rightarrow> ''Task failed: '' @ error
                                           | None \<Rightarrow> ''Task failed'')
                                 ''status'') s)
      else s)"

definition beginTurn :: "bool \<Rightarrow> string \<Rightarrow> launcher \<Rightarrow> launcher" where
  "beginTurn useAppServer msgType s =
     (if msgType = ''task_started''
      then (let s1 = (if useAppServer then s\<lparr>turnInFlight := True\<rparr> else s)
            in if \<not> thinking s1 then onThinkingChange True s1 else s1)
      else s)"

text \<open>The open plan call of the finished turn is closed with the turn's outcome.\<close>

definition closePlanCall :: "(nat \<Rightarrow> string) \<Rightarrow> string \<Rightarrow> json \<Rightarrow> launcher \<Rightarrow> launcher" where
  "closePlanCall uuid msgType msg s =
     (case eventTurnId msg of
        Some turnId \<Rightarrow>
          (case nonEmpty (planCallIdByTurn s turnId) of
             Some planCallId \<Rightarrow>
               (let s1 = emitToolResult uuid planCallId
                           (JObj [(''status'', JStr msgType),
                                  (''error'', (case asString (fld msg ''error'') of
                                                 Some e \<Rightarrow> JStr e | None \<Rightarrow> JNull))])
                           msg (msgType = ''task_failed'') s
                in s1\<lparr>planCallIdByTurn := (planCallIdByTurn s1)(turnId := None)\<rparr>)
           | None \<Rightarrow> s)
      | None \<Rightarrow> s)"

definition endTurn :: "(nat \<Rightarrow> string) \<Rightarrow> bool \<Rightarrow> string \<Rightarrow> json \<Rightarrow> launcher \<Rightarrow> launcher" where
  "endTurn uuid useAppServer msgType msg s =
     (if isTerminal msgType
      then (let s1 = (if useAppServer then s\<lparr>turnInFlight := False\<rparr> else s);
                s2 = (if thinking s1 then onThinkingChange False s1 else s1);
                s3 = closePlanCall uuid msgType msg s2;
                s4 = perform DiffReset s3
            in if useAppServer
               then s4\<lparr>appServerEventConverter := reset (appServerEventConverter s4)\<rparr>
               else s4)
      else s)"

definition forwardReasoning :: "string \<Rightarrow> json \<Rightarrow> launcher \<Rightarrow> launcher" where
  "forwardReasoning msgType msg s =
     (if msgType = ''agent_reasoning_section_break'' then perform ReasoningSectionBreak s
      else if msgType = ''agent_reasoning_delta''
      then (case asString (fld msg ''delta'') of
              Some delta \<Rightarrow> perform (ReasoningProcessDelta delta) s
            | None \<Rightarrow> s)
      else if msgType = ''agent_reasoning''
      then (case asString (fld msg ''text'') of
              Some text \<Rightarrow> perform (ReasoningComplete text) s
            | None \<Rightarrow> s)
      else s)"

definition forwardAgentMessage :: "(nat \<Rightarrow> string) \<Rightarrow> string \<Rightarrow> json \<Rightarrow> launcher \<Rightarrow> launcher" where
  "forwardAgentMessage uuid msgType msg s =
     (if msgType = ''agent_message''
      then (case asString (fld msg ''message'') of
              Some message \<Rightarrow>
                (let (messageId, s') = randomUUID uuid s
                 in perform (SendCodexMessage
                      (JObj (objLit [[(''type'', JStr ''message''), (''message'', JStr message)],
                                     toTraceFields msg,
                                     [(''id'', JStr messageId)]]))) s')
            | None \<Rightarrow> s)
      else s)"

subsection \<open>Plan events\<close>

definition onTurnPlanUpdatedEvent :: "(nat \<Rightarrow> string) \<Rightarrow> json \<Rightarrow> launcher \<Rightarrow> launcher" where
  "onTurnPlanUpdatedEvent uuid msg s =
     (let (turnId, s1) = (case eventTurnId msg of
                            Some t \<Rightarrow> (t, s)
                          | None \<Rightarrow> randomUUID uuid s);
          callId = ''turn-plan:'' @ turnId;
          s2 = s1\<lparr>planCallIdByTurn := (planCallIdByTurn s1)(turnId \<mapsto> callId)\<rparr>
      in emitToolCall uuid ''ExitPlanMode'' callId
           (JObj [(''explanation'', coalesce [fld msg ''explanation'', JNull]),
                  (''plan'', coalesce [fld msg ''plan'', JArr []]),
                  (''updated_from'', JStr ''turn/plan/updated'')])
           msg s2)"

definition onAgentPlanDeltaEvent :: "(nat \<Rightarrow> string) \<Rightarrow> json \<Rightarrow> launcher \<Rightarrow> launcher" where
  "onAgentPlanDeltaEvent uuid msg s =
     (let (callId, s1) = extractCallId uuid msg ''plan-delta'' s;
          s2 = (case eventTurnId msg of
                  Some turnId \<Rightarrow>
                    (if planCallIdByTurn s1 turnId = None
                     then s1\<lparr>planCallIdByTurn := (planCallIdByTurn s1)(turnId \<mapsto> callId)\<rparr>
                     else s1)
                | None \<Rightarrow> s1)
      in emitToolCall uuid ''ExitPlanMode'' callId
           (JObj [(''plan'', coalesce [fld msg ''plan_text'', fld msg ''delta'', JStr []]),
                  (''delta'', coalesce [fld msg ''delta'', JStr []]),
                  (''updated_from'', JStr ''item/plan/delta'')])
           msg s2)"

definition onPlanItemStartedEvent :: "(nat \<Rightarrow> string) \<Rightarrow> json \<Rightarrow> launcher \<Rightarrow> launcher" where
  "onPlanItemStartedEvent uuid msg s =
     (let (callId, s1) = extractCallId uuid msg ''plan-item'' s
      in emitToolCall uuid ''ExitPlanMode'' callId
           (JObj [(''plan'', coalesce [fld msg ''text'', JStr []]),
                  (''updated_from'', JStr ''item/started(plan)'')])
           msg s1)"

definition onPlanItemCompletedEvent :: "(nat \<Rightarrow> string) \<Rightarrow> json \<Rightarrow> launcher \<Rightarrow> launcher" where
  "onPlanItemCompletedEvent uuid msg s =
     (let (callId, s1) = extractCallId uuid msg ''plan-item'' s
      in emitToolResult uuid callId
           (JObj [(''plan'', coalesce [fld msg ''text'', JStr []]),
                  (''status'', coalesce [fld msg ''status'', JStr ''completed''])])
           msg False s1)"

definition planEvents :: "(nat \<Rightarrow> string) \<Rightarrow> string \<Rightarrow> json \<Rightarrow> launcher \<Rightarrow> launcher" where
  "planEvents uuid msgType msg s =
     (if msgType = ''turn_plan_updated'' then onTurnPlanUpdatedEvent uuid msg s
      else if msgType = ''agent_plan_delta'' then onAgentPlanDeltaEvent uuid msg s
      else if msgType = ''plan_item_started'' then onPlanItemStartedEvent uuid msg s
      else if msgType = ''plan_item_completed'' then onPlanItemCompletedEvent uuid msg s
      else s)"

subsection \<open>Tool events\<close>

text \<open>\<^verbatim>\<open>msg.input ?? stripEnvelopeFields(msg)\<close> and
  \<^verbatim>\<open>msg.output ?? { error: msg.error ?? null }\<close>\<close>

definition inputOf :: "json \<Rightarrow> json" where
  "inputOf msg = (if nullish (fld msg ''input'') then stripEnvelopeFields msg else fld msg ''input'')"

definition outputOf :: "json \<Rightarrow> json" where
  "outputOf msg =
     (if nullish (fld msg ''output'') then JObj [(''error'', coalesce [fld msg ''error'', JNull])]
      else fld msg ''output'')"

definition beginCall ::
  "(nat \<Rightarrow> string) \<Rightarrow> string \<Rightarrow> string \<Rightarrow> json \<Rightarrow> json \<Rightarrow> launcher \<Rightarrow> launcher" where
  "beginCall uuid prefix name input msg s =
     (let (callId, s1) = extractCallId uuid msg prefix s
      in emitToolCall uuid name callId input msg s1)"

definition endCall ::
  "(nat \<Rightarrow> string) \<Rightarrow> string \<Rightarrow> json \<Rightarrow> bool \<Rightarrow> json \<Rightarrow> launcher \<Rightarrow> launcher" where
  "endCall uuid prefix output isError msg s =
     (let (callId, s1) = extractCallId uuid msg prefix s
      in emitToolResult uuid callId output msg isError s1)"

definition toolEvents :: "(nat \<Rightarrow> string) \<Rightarrow> string \<Rightarrow> json \<Rightarrow> launcher \<Rightarrow> launcher" where
  "toolEvents uuid msgType msg s =
     (if msgType = ''exec_command_begin'' \<or> msgType = ''exec_approval_request''
      then beginCall uuid ''exec'' ''CodexBash'' (stripEnvelopeFields msg) msg s
      else if msgType = ''exec_command_end''
      then endCall uuid ''exec'' (stripEnvelopeFields msg) (truthy (fld msg ''error'')) msg s
      else if msgType = ''token_count''
      then passThrough uuid msg s
      else if msgType = ''patch_apply_begin''
      then beginCall uuid ''patch'' ''CodexPatch'' (stripEnvelopeFields msg) msg s
      else if msgType = ''patch_apply_delta''
      then endCall uuid ''patch''
             (JObj [(''stream'', JBool True),
                    (''delta'', coalesce [fld msg ''delta'', JStr []]),
                    (''status'', coalesce [fld msg ''status'', JStr ''in_progress''])])
             False msg s
      else if msgType = ''patch_apply_end''
      then endCall uuid ''patch'' (stripEnvelopeFields msg) (\<not> truthy (fld msg ''success'')) msg s
      else if msgType = ''mcp_tool_call_begin''
      then beginCall uuid ''mcp'' (orDefault (asString (fld msg ''name'')) ''mcp_tool_call'') (inputOf msg) msg s
      else if msgType = ''mcp_tool_call_end''
      then endCall uuid ''mcp'' (outputOf msg) (truthy (fld msg ''error'')) msg s
      else if msgType = ''collab_tool_call_begin''
      then beginCall uuid ''collab'' (orDefault (asString (fld msg ''name'')) ''collab_tool_call'')
             (inputOf msg) msg s
      else if msgType = ''collab_tool_call_end''
      then endCall uuid ''collab'' (outputOf msg) (truthy (fld msg ''error'')) msg s
      else if msgType = ''web_search_begin''
      then beginCall uuid ''web-search'' ''web_search'' (inputOf msg) msg s
      else if msgType = ''web_search_end''
      then endCall uuid ''web-search'' (outputOf msg) (truthy (fld msg ''error'')) msg s
      else if msgType = ''image_view_begin''
      then beginCall uuid ''image-view'' ''image_view'' (inputOf msg) msg s
      else if msgType = ''image_view_end''
      then endCall uuid ''image-view'' (outputOf msg) (truthy (fld msg ''error'')) msg s
      else if msgType = ''review_mode_entered''
      then beginCall uuid ''review'' ''review_mode''
             (JObj [(''review'', coalesce [fld msg ''review'', JNull])]) msg s
      else if msgType = ''review_mode_exited''
      then endCall uuid ''review'' (JObj [(''review'', coalesce [fld msg ''review'', JNull])]) False msg s
      else if msgType = ''context_compaction_started''
      then beginCall uuid ''context-compaction'' ''context_compaction''
             (JObj [(''status'', JStr ''started'')]) msg s
      else if msgType = ''context_compaction_completed''
      then endCall uuid ''context-compaction'' (JObj [(''status'', JStr ''completed'')]) False msg s
      else if msgType = ''task_failed''
      then passThrough uuid msg s
      else if msgType = ''turn_diff''
      then (case asString (fld msg ''unified_diff'') of
              Some diff \<Rightarrow> perform (DiffProcessDiff diff) s
            | None \<Rightarrow> s)
      else s)"

subsection \<open>The handler\<close>

definition handleCodexEvent ::
  "(json \<Rightarrow> string) \<Rightarrow> (nat \<Rightarrow> string) \<Rightarrow> bool \<Rightarrow> launcher \<Rightarrow> json \<Rightarrow> launcher" where
  "handleCodexEvent render uuid useAppServer s msg =
     (case asString (fld msg ''type'') of
        None \<Rightarrow> s
      | Some msgType \<Rightarrow>
          (if msgType = ''thread_started''
           then (case asString (coalesce [fld msg ''thread_id'', fld msg ''threadId'']) of
                   Some threadId \<Rightarrow> perform (OnSessionFound threadId) (s\<lparr>currentThreadId := Some threadId\<rparr>)
                 | None \<Rightarrow> s)
           else toolEvents uuid msgType msg
                  (planEvents uuid msgType msg
                    (forwardAgentMessage uuid msgType msg
                      (forwardReasoning msgType msg
                        (endTurn uuid useAppServer msgType msg
                          (beginTurn useAppServer msgType
                            (displayEvent render msgType msg
                              (trackTurn msgType msg s)))))))))"

text \<open>A sequence of canonical events, handled one after the other.\<close>

fun handleCodexEvents ::
  "(json \<Rightarrow> string) \<Rightarrow> (nat \<Rightarrow> string) \<Rightarrow> bool \<Rightarrow> launcher \<Rightarrow> json list \<Rightarrow> launcher" where
  "handleCodexEvents render uuid useAppServer s [] = s"
| "handleCodexEvents render uuid useAppServer s (msg # msgs) =
     handleCodexEvents render uuid useAppServer (handleCodexEvent render uuid useAppServer s msg) msgs"

text \<open>The notification handler of the app-server client: the converter's events go to
  \<^verbatim>\<open>handleCodexEvent\<close> in order.\<close>

definition onNotification ::
  "(json \<Rightarrow> string) \<Rightarrow> (nat \<Rightarrow> string) \<Rightarrow> launcher \<Rightarrow> string \<Rightarrow> json \<Rightarrow> launcher" where
  "onNotification render uuid s method params =
     (let (events, c) = handleNotification render (appServerEventConverter s) method params
      in handleCodexEvents render uuid True (s\<lparr>appServerEventConverter := c\<rparr>) events)"

text \<open>The messages sent to the session, oldest first.\<close>

fun sentMessages :: "effect list \<Rightarrow> json list" where
  "sentMessages [] = []"
| "sentMessages (SendCodexMessage m # es) = m # sentMessages es"
| "sentMessages (_ # es) = sentMessages es"

definition isToolCall :: "string \<Rightarrow> json \<Rightarrow> bool" where
  "isToolCall callId m = (fld m ''type'' = JStr ''tool-call'' \<and> fld m ''callId'' = JStr callId)"

definition isToolResult :: "string \<Rightarrow> json \<Rightarrow> bool" where
  "isToolResult callId m = (fld m ''type'' = JStr ''tool-call-result'' \<and> fld m ''callId'' = JStr callId)"

section \<open>Notions used by the properties\<close>

text \<open>The parameter payload as the handler sees it, and the item it carries.\<close>

definition paramsOf :: "json \<Rightarrow> json" where
  "paramsOf params = recordOr params (JObj [])"

definition itemOf :: "json \<Rightarrow> json" where
  "itemOf params = extractItem (paramsOf params)"

text \<open>A completion payload with no text of its own: none of the fields from which a
  completed item takes its message, text, output or stdout is given.\<close>

definition noExplicitText :: "json \<Rightarrow> bool" where
  "noExplicitText item =
     (itemText item = None \<and> nullish (fld item ''output'') \<and> nullish (fld item ''result'')
      \<and> nullish (fld item ''stdout''))"

text \<open>An event that carries no text: no message, text, output or stdout.\<close>

definition textFree :: "json \<Rightarrow> bool" where
  "textFree e = (nullish (fld e ''message'') \<and> nullish (fld e ''text'')
                 \<and> nullish (fld e ''output'') \<and> nullish (fld e ''stdout''))"

fun allTextFree :: "json list \<Rightarrow> bool" where
  "allTextFree [] = True"
| "allTextFree (e # es) = (textFree e \<and> allTextFree es)"

text \<open>The success of a file change as the specification words it: the first of success, ok
  and applied that is given decides, as true only when it is the boolean true; when none is
  given, the status decides.\<close>

definition boolOrFalse :: "json \<Rightarrow> bool" where
  "boolOrFalse v = (case v of JBool b \<Rightarrow> b | _ \<Rightarrow> False)"

definition patchSuccessSpec :: "json \<Rightarrow> bool" where
  "patchSuccessSpec item =
     (if \<not> nullish (fld item ''success'') then boolOrFalse (fld item ''success'')
      else if \<not> nullish (fld item ''ok'') then boolOrFalse (fld item ''ok'')
      else if \<not> nullish (fld item ''applied'') then boolOrFalse (fld item ''applied'')
      else fld item ''status'' = JStr ''completed'')"


text \<open>The retry flag of an error payload as the specification words it: \<^verbatim>\<open>will_retry\<close>,
  or \<^verbatim>\<open>willRetry\<close> when \<^verbatim>\<open>will_retry\<close> is not given, is the boolean true.\<close>

definition retryFlagSpec :: "json \<Rightarrow> bool" where
  "retryFlagSpec paramsRecord =
     (fld paramsRecord ''will_retry'' = JBool True
      \<or> (nullish (fld paramsRecord ''will_retry'') \<and> fld paramsRecord ''willRetry'' = JBool True))"

definition orUndef :: "json option \<Rightarrow> json" where
  "orUndef v = (case v of Some x \<Rightarrow> x | None \<Rightarrow> JUndef)"

text \<open>What an error event carries, as the specification words it, read from the payload's
  own fields. A field is given when it is neither null nor undefined; of several places the
  first given one counts.\<close>

fun firstGiven :: "json list \<Rightarrow> json" where
  "firstGiven [] = JUndef"
| "firstGiven (v # vs) = (if nullish v then firstGiven vs else v)"

definition isObject :: "json \<Rightarrow> bool" where
  "isObject v = (case v of JObj _ \<Rightarrow> True | JArr _ \<Rightarrow> True | _ \<Rightarrow> False)"

definition objectOrUndef :: "json \<Rightarrow> json" where
  "objectOrUndef v = (if isObject v then v else JUndef)"

text \<open>The nested error object of the payload.\<close>

definition errorObjectSpec :: "json \<Rightarrow> json" where
  "errorObjectSpec paramsRecord = objectOrUndef (fld paramsRecord ''error'')"

text \<open>The structured error-info object: on the payload or on its error object, under either
  spelling, when it is an object.\<close>

definition errorInfoSpec :: "json \<Rightarrow> json" where
  "errorInfoSpec paramsRecord =
     objectOrUndef (firstGiven [fld paramsRecord ''codexErrorInfo'', fld paramsRecord ''codex_error_info'',
                                fld (errorObjectSpec paramsRecord) ''codexErrorInfo'',
                                fld (errorObjectSpec paramsRecord) ''codex_error_info''])"

text \<open>The additional-details object, likewise.\<close>

definition additionalDetailsSpec :: "json \<Rightarrow> json" where
  "additionalDetailsSpec paramsRecord =
     objectOrUndef (firstGiven [fld paramsRecord ''additionalDetails'', fld paramsRecord ''additional_details'',
                                fld (errorObjectSpec paramsRecord) ''additionalDetails'',
                                fld (errorObjectSpec paramsRecord) ''additional_details''])"

text \<open>The HTTP status code: on the error-info object or on the payload, under either
  spelling, when it is a finite number.\<close>

definition finiteOrUndef :: "json \<Rightarrow> json" where
  "finiteOrUndef v = (case v of JNum (Finite q) \<Rightarrow> v | _ \<Rightarrow> JUndef)"

definition httpStatusSpec :: "json \<Rightarrow> json" where
  "httpStatusSpec paramsRecord =
     finiteOrUndef (firstGiven [fld (errorInfoSpec paramsRecord) ''httpStatusCode'',
                                fld (errorInfoSpec paramsRecord) ''http_status_code'',
                                fld paramsRecord ''httpStatusCode'', fld paramsRecord ''http_status_code''])"

text \<open>The message: the first non-empty string among the payload's message, the error
  object's message and the payload's reason; a fixed text when there is none.\<close>

definition isText :: "json \<Rightarrow> bool" where
  "isText v = (case v of JStr t \<Rightarrow> t \<noteq> [] | _ \<Rightarrow> False)"

definition errorMessageSpec :: "json \<Rightarrow> json" where
  "errorMessageSpec paramsRecord =
     (case filter isText [fld paramsRecord ''message'', fld (errorObjectSpec paramsRecord) ''message'',
                          fld paramsRecord ''reason''] of
        [] \<Rightarrow> JStr ''Unknown app-server error''
      | v # _ \<Rightarrow> v)"

subsection \<open>Inputs and scenarios\<close>

definition exRender :: "json \<Rightarrow> string" where
  "exRender v = ''[value]''"

definition exUuid :: "nat \<Rightarrow> string" where
  "exUuid n = ''uuid-'' @ showNat n"

text \<open>A converter that has buffered text for a plan, a message and a command.\<close>

definition exBuffered :: converter where
  "exBuffered =
     snd (handleAll exRender newConverter
       [(''item/plan/delta'', JObj [(''itemId'', JStr ''plan-1''), (''delta'', JStr ''Step A'')]),
        (''item/agentMessage/delta'', JObj [(''itemId'', JStr ''msg-1''), (''delta'', JStr ''Hello'')]),
        (''item/started'',
           JObj [(''item'', JObj [(''id'', JStr ''cmd-1''), (''type'', JStr ''commandExecution''),
                                  (''command'', JStr ''ls'')])]),
        (''item/commandExecution/outputDelta'', JObj [(''itemId'', JStr ''cmd-1''), (''delta'', JStr ''ok'')])])"

definition exPlanCompleted :: json where
  "exPlanCompleted = JObj [(''item'', JObj [(''id'', JStr ''plan-1''), (''type'', JStr ''plan'')])]"

definition exPatchCompleted :: json where
  "exPatchCompleted =
     JObj [(''item'', JObj [(''id'', JStr ''patch-1''), (''type'', JStr ''fileChange''),
                            (''status'', JStr ''completed'')])]"

definition exTurnFailed :: json where
  "exTurnFailed =
     JObj [(''threadId'', JStr ''thread-1''), (''turn'', JObj [(''id'', JStr ''turn-1'')]),
           (''status'', JStr ''Failed''), (''message'', JStr ''boom'')]"

definition exTurnInterrupted :: json where
  "exTurnInterrupted =
     JObj [(''turn'', JObj [(''id'', JStr ''turn-1''), (''threadId'', JStr ''thread-1'')]),
           (''status'', JStr ''Interrupted'')]"

definition exErrorRetry :: json where
  "exErrorRetry = JObj [(''message'', JStr ''stream lost''), (''will_retry'', JBool True)]"

definition exErrorFinal :: json where
  "exErrorFinal =
     JObj [(''threadId'', JStr ''thread-1''), (''turnId'', JStr ''turn-1''),
           (''error'', JObj [(''message'', JStr ''Upstream failed''),
                             (''codexErrorInfo'', JObj [(''kind'', JStr ''HttpConnectionFailed''),
                                                        (''httpStatusCode'', JNum (Finite 502))]),
                             (''additionalDetails'', JObj [(''upstream'', JStr ''openai'')])])]"

text \<open>A final error with its details on the payload itself, under the other spelling.\<close>

definition exErrorPlain :: json where
  "exErrorPlain =
     JObj [(''reason'', JStr ''gave up''), (''will_retry'', JBool False),
           (''additional_details'', JObj [(''attempt'', JNum (Finite 3))]),
           (''http_status_code'', JNum (Finite 429))]"

text \<open>The payloads of the command scenario, for an item id.\<close>

definition commandStarted :: "string \<Rightarrow> json" where
  "commandStarted i =
     JObj [(''item'', JObj [(''id'', JStr i), (''type'', JStr ''commandExecution''),
                            (''command'', JStr ''ls'')])]"

definition outputDelta :: "string \<Rightarrow> string \<Rightarrow> json" where
  "outputDelta i delta = JObj [(''itemId'', JStr i), (''delta'', JStr delta)]"

definition commandCompleted :: "string \<Rightarrow> json" where
  "commandCompleted i =
     JObj [(''item'', JObj [(''id'', JStr i), (''type'', JStr ''commandExecution''),
                            (''exitCode'', JNum (Finite 0))])]"

definition commandScenario :: "string \<Rightarrow> (string \<times> json) list" where
  "commandScenario i =
     [(''item/started'', commandStarted i),
      (''item/commandExecution/outputDelta'', outputDelta i ''o''),
      (''item/commandExecution/outputDelta'', outputDelta i ''k''),
      (''item/completed'', commandCompleted i)]"

text \<open>A text streamed as message deltas for an item, one notification per fragment, and
  the completion of that message item without a text of its own.\<close>

definition messageDeltas :: "string \<Rightarrow> string list \<Rightarrow> (string \<times> json) list" where
  "messageDeltas i frags =
     map (\<lambda>d. (''item/agentMessage/delta'', JObj [(''itemId'', JStr i), (''delta'', JStr d)])) frags"

definition messageCompleted :: "string \<Rightarrow> json" where
  "messageCompleted i = JObj [(''item'', JObj [(''id'', JStr i), (''type'', JStr ''agentMessage'')])]"

text \<open>What one message delta does to the converter.\<close>

definition bufferMessage :: "string \<Rightarrow> converter \<Rightarrow> string \<Rightarrow> converter" where
  "bufferMessage i s d =
     (if i \<noteq> [] \<and> d \<noteq> [] then s\<lparr>agentMessageBuffers := appendTo (agentMessageBuffers s) i d\<rparr> else s)"

text \<open>A \<open>turn_plan_updated\<close> event of a turn, and a list of them.\<close>

definition isPlanUpdateOf :: "string \<Rightarrow> json \<Rightarrow> bool" where
  "isPlanUpdateOf turnId msg =
     (asString (fld msg ''type'') = Some ''turn_plan_updated'' \<and> eventTurnId msg = Some turnId)"

fun planUpdatesOf :: "string \<Rightarrow> json list \<Rightarrow> bool" where
  "planUpdatesOf turnId [] = True"
| "planUpdatesOf turnId (msg # msgs) = (isPlanUpdateOf turnId msg \<and> planUpdatesOf turnId msgs)"

text \<open>A terminal event of a turn.\<close>

definition isTerminalOf :: "string \<Rightarrow> string \<Rightarrow> json \<Rightarrow> bool" where
  "isTerminalOf turnId msgType msg =
     (asString (fld msg ''type'') = Some msgType \<and> isTerminal msgType \<and> eventTurnId msg = Some turnId)"

text \<open>The input of the plan call that a \<open>turn_plan_updated\<close> event opens, and the output
  with which the end of the turn closes it.\<close>

definition planUpdateInput :: "json \<Rightarrow> json" where
  "planUpdateInput msg =
     JObj [(''explanation'', coalesce [fld msg ''explanation'', JNull]),
           (''plan'', coalesce [fld msg ''plan'', JArr []]),
           (''updated_from'', JStr ''turn/plan/updated'')]"

definition planCloseOutput :: "string \<Rightarrow> json \<Rightarrow> json" where
  "planCloseOutput msgType msg =
     JObj [(''status'', JStr msgType),
           (''error'', (case asString (fld msg ''error'') of Some e \<Rightarrow> JStr e | None \<Rightarrow> JNull))]"

definition exPlanUpdate :: json where
  "exPlanUpdate =
     JObj [(''type'', JStr ''turn_plan_updated''), (''plan'', JArr []), (''turn_id'', JStr ''turn-1'')]"

definition exTaskComplete :: json where
  "exTaskComplete = JObj [(''type'', JStr ''task_complete''), (''turn_id'', JStr ''turn-1'')]"





section \<open>Reachable converters\<close>

text \<open>The converters that a new converter can become: by handling notifications and by
  resets.\<close>

inductive reachable :: "(json \<Rightarrow> string) \<Rightarrow> converter \<Rightarrow> bool" for render where
  reachable_new: "reachable render newConverter"
| reachable_step:
    "reachable render s \<Longrightarrow> reachable render (snd (handleNotification render s method params))"
| reachable_reset: "reachable render s \<Longrightarrow> reachable render (reset s)"

text \<open>The metadata saved at the start of a command or of a file change has only the
  properties that the start handler sets.\<close>

definition metaKeysOk :: "converter \<Rightarrow> bool" where
  "metaKeysOk s =
     (\<forall>i m. (commandMeta s i = Some m \<longrightarrow>
                fst ` set m \<subseteq> {''command'', ''cwd'', ''auto_approved'', ''thread_id'', ''turn_id''})
           \<and> (fileChangeMeta s i = Some m \<longrightarrow>
                fst ` set m \<subseteq> {''changes'', ''auto_approved'', ''thread_id'', ''turn_id''}))"

text \<open>An item event that is correlated by the item id \<open>i\<close>: its item id is \<open>i\<close> and its
  call id, when it has one, is \<open>i\<close> too.\<close>

definition correlated :: "string \<Rightarrow> json \<Rightarrow> bool" where
  "correlated i e =
     (i \<noteq> [] \<and> fld e ''item_id'' = JStr i \<and> fld e ''callId'' = JUndef
      \<and> (fld e ''call_id'' = JStr i \<or> fld e ''call_id'' = JUndef))"

fun allCorrelated :: "string \<Rightarrow> json list \<Rightarrow> bool" where
  "allCorrelated i [] = True"
| "allCorrelated i (e # es) = (correlated i e \<and> allCorrelated i es)"

text \<open>The begin events and the end events of the tool-call families.\<close>

definition beginEventTypes :: "string list" where
  "beginEventTypes =
     [''exec_command_begin'', ''patch_apply_begin'', ''mcp_tool_call_begin'', ''collab_tool_call_begin'',
      ''web_search_begin'', ''image_view_begin'', ''review_mode_entered'', ''context_compaction_started'',
      ''plan_item_started'']"

definition endEventTypes :: "string list" where
  "endEventTypes =
     [''exec_command_end'', ''patch_apply_end'', ''mcp_tool_call_end'', ''collab_tool_call_end'',
      ''web_search_end'', ''image_view_end'', ''review_mode_exited'', ''context_compaction_completed'',
      ''plan_item_completed'']"

definition eventTypeIn :: "string list \<Rightarrow> json \<Rightarrow> bool" where
  "eventTypeIn types e = (case asString (fld e ''type'') of Some ty \<Rightarrow> ty \<in> set types | None \<Rightarrow> False)"

definition exCommandStarted :: json where
  "exCommandStarted =
     JObj [(''threadId'', JStr ''thread-1''), (''turnId'', JStr ''turn-1''),
           (''item'', JObj [(''id'', JStr ''cmd-1''), (''type'', JStr ''commandExecution''),
                            (''command'', JStr ''ls''), (''status'', JStr ''inProgress'')])]"

definition exCommandCompleted :: json where
  "exCommandCompleted =
     JObj [(''threadId'', JStr ''thread-1''), (''turnId'', JStr ''turn-1''),
           (''item'', JObj [(''id'', JStr ''cmd-1''), (''type'', JStr ''commandExecution''),
                            (''exitCode'', JNum (Finite 0)), (''status'', JStr ''completed'')])]"

definition exStartedConverter :: converter where
  "exStartedConverter = snd (handleNotification exRender newConverter ''item/started'' exCommandStarted)"

definition exBeginEvent :: json where
  "exBeginEvent =
     JObj [(''type'', JStr ''exec_command_begin''), (''call_id'', JStr ''cmd-1''),
           (''item_id'', JStr ''cmd-1''), (''command'', JStr ''ls''), (''thread_id'', JStr ''thread-1''),
           (''turn_id'', JStr ''turn-1''), (''status'', JStr ''inProgress'')]"

definition exEndEvent :: json where
  "exEndEvent =
     JObj [(''type'', JStr ''exec_command_end''), (''call_id'', JStr ''cmd-1''),
           (''item_id'', JStr ''cmd-1''), (''command'', JStr ''ls''), (''thread_id'', JStr ''thread-1''),
           (''turn_id'', JStr ''turn-1''), (''exit_code'', JNum (Finite 0)),
           (''status'', JStr ''completed'')]"

section \<open>Completed items\<close>

text \<open>The event type that the completion of an item of a given (normalised) type yields,
  as the specification lists them.\<close>

definition completedEventTypeSpec :: "string \<Rightarrow> string" where
  "completedEventTypeSpec itemType =
     (if itemType = ''agentmessage'' then ''agent_message''
      else if itemType = ''reasoning'' then ''agent_reasoning''
      else if itemType = ''plan'' then ''plan_item_completed''
      else if itemType = ''commandexecution'' then ''exec_command_end''
      else if itemType = ''filechange'' then ''patch_apply_end''
      else if itemType = ''mcptoolcall'' then ''mcp_tool_call_end''
      else if itemType = ''collabtoolcall'' then ''collab_tool_call_end''
      else if itemType = ''websearch'' then ''web_search_end''
      else if itemType = ''imageview'' then ''image_view_end''
      else if itemType = ''enteredreviewmode'' then ''review_mode_entered''
      else if itemType = ''exitedreviewmode'' then ''review_mode_exited''
      else if itemType = ''contextcompaction'' then ''context_compaction_completed''
      else [])"

text \<open>The item types whose completion always yields an event.\<close>

definition alwaysCompletedTypes :: "string list" where
  "alwaysCompletedTypes =
     [''plan'', ''commandexecution'', ''filechange'', ''mcptoolcall'', ''collabtoolcall'',
      ''websearch'', ''imageview'', ''enteredreviewmode'', ''exitedreviewmode'', ''contextcompaction'']"

text \<open>The text of a completed message or reasoning item: the completion's own text, else
  what the deltas of the item have buffered; none when that is missing or empty.\<close>

definition availableText :: "converter \<Rightarrow> string \<Rightarrow> json \<Rightarrow> string \<Rightarrow> string option" where
  "availableText s itemType item i =
     nonEmpty (orElse (itemText item)
                 (if itemType = ''agentmessage'' then agentMessageBuffers s i else reasoningBuffers s i))"

definition textField :: "string \<Rightarrow> string" where
  "textField itemType = (if itemType = ''agentmessage'' then ''message'' else ''text'')"

text \<open>The converter holds nothing for an item id.\<close>

definition holdsNothingFor :: "converter \<Rightarrow> string \<Rightarrow> bool" where
  "holdsNothingFor s i =
     (agentMessageBuffers s i = None \<and> reasoningBuffers s i = None \<and> planBuffers s i = None
      \<and> commandOutputBuffers s i = None \<and> fileChangeOutputBuffers s i = None
      \<and> commandMeta s i = None \<and> fileChangeMeta s i = None)"

text \<open>The outcome of a completion: one event of the expected type for the item.\<close>

definition oneEvent :: "string \<Rightarrow> string \<Rightarrow> json list \<Rightarrow> bool" where
  "oneEvent eventType i events =
     (case events of
        [e] \<Rightarrow> fld e ''type'' = JStr eventType \<and> fld e ''item_id'' = JStr i
      | _ \<Rightarrow> False)"

section \<open>Objects\<close>

lemma map_of_set_field: "map_of (set_field k v kvs) = (map_of kvs)(k \<mapsto> v)"
  by (induction kvs) auto

lemma map_of_spread_other: "k \<notin> fst ` set src \<Longrightarrow> map_of (spread tgt src) k = map_of tgt k"
proof (induction src arbitrary: tgt)
  case Nil
  then show ?case by simp
next
  case (Cons a src)
  obtain k' v' where a: "a = (k', v')" by (cases a)
  from Cons.prems a have "k \<noteq> k'" and "k \<notin> fst ` set src" by auto
  then show ?case using Cons.IH [of "set_field k' v' tgt"] a
    by (simp add: map_of_set_field)
qed

lemma spread_optStr: "spread tgt (optStr k v) = setIfString k v tgt"
  by (simp add: optStr_def setIfString_def split: option.splits)

lemma map_of_setIfString:
  "map_of (setIfString k v kvs) k' =
     (if k' = k then (case nonEmpty v of Some t \<Rightarrow> Some (JStr t) | None \<Rightarrow> map_of kvs k')
      else map_of kvs k')"
  by (simp add: setIfString_def nonEmpty_def map_of_set_field split: option.splits)

lemma map_of_addStableFields_other:
  "k \<noteq> ''thread_id'' \<Longrightarrow> k \<noteq> ''turn_id'' \<Longrightarrow> k \<noteq> ''item_id'' \<Longrightarrow> k \<noteq> ''status'' \<Longrightarrow>
   map_of (addStableFields target params item itemId) k = map_of target k"
  by (simp add: addStableFields_def map_of_setIfString)

lemma spread_optNum_other: "k' \<noteq> k \<Longrightarrow> map_of (spread tgt (optNum k v)) k' = map_of tgt k'"
  by (simp add: optNum_def map_of_set_field split: option.splits)

lemma spread_optBool_other: "k' \<noteq> k \<Longrightarrow> map_of (spread tgt (optBool k v)) k' = map_of tgt k'"
  by (simp add: optBool_def map_of_set_field split: option.splits)

lemma spread_optVal_other: "k' \<noteq> k \<Longrightarrow> map_of (spread tgt (optVal k v)) k' = map_of tgt k'"
  by (simp add: optVal_def map_of_set_field split: option.splits)

lemma nullish_simps [simp]:
  "nullish JUndef" "nullish JNull" "\<not> nullish (JStr t)" "\<not> nullish (JBool b)"
  "\<not> nullish (JNum n)" "\<not> nullish (JArr vs)" "\<not> nullish (JObj kvs)"
  by (simp_all add: nullish_def)

lemma asText_nullish: "nullish v \<Longrightarrow> asText render v = None"
  by (auto simp: nullish_def asText_def)

lemma reset_new: "reset s = newConverter"
  by (simp add: reset_def newConverter_def)

lemmas event_simps = map_of_addStableFields_other objLit_def spread_optStr map_of_setIfString
  map_of_set_field spread_optNum_other spread_optBool_other spread_optVal_other

section \<open>The converter after a reset\<close>

lemma fresh_agent: "noExplicitText item \<Longrightarrow>
  fst (onAgentMessageItem newConverter ''item/completed'' pr item i) = []"
  by (simp add: onAgentMessageItem_def noExplicitText_def newConverter_def nonEmpty_def orElse_def)

lemma fresh_reasoning: "noExplicitText item \<Longrightarrow>
  fst (onReasoningItem newConverter ''item/completed'' pr item i) = []"
  by (simp add: onReasoningItem_def noExplicitText_def newConverter_def nonEmpty_def orElse_def)

lemma fresh_plan: "noExplicitText item \<Longrightarrow>
  allTextFree (fst (onPlanItem newConverter ''item/completed'' pr item i))"
  by (simp add: onPlanItem_def noExplicitText_def newConverter_def textFree_def event_simps
         nonEmpty_def orElse_def)

lemma fresh_command: "noExplicitText item \<Longrightarrow>
  allTextFree (fst (onCommandExecutionItem render newConverter ''item/completed'' pr item i))"
  by (simp add: onCommandExecutionItem_def commandEndEvent_def noExplicitText_def newConverter_def
        textFree_def event_simps asText_nullish orDefault_def nonEmpty_def orElse_def)

lemma fresh_filechange: "noExplicitText item \<Longrightarrow>
  allTextFree (fst (onFileChangeItem render newConverter ''item/completed'' pr item i))"
  by (simp add: onFileChangeItem_def patchEndEvent_def noExplicitText_def newConverter_def
        textFree_def event_simps asText_nullish orDefault_def nonEmpty_def orElse_def)

lemma fresh_mcp: "noExplicitText item \<Longrightarrow>
  allTextFree (onMcpToolCallItem ''item/completed'' pr item i)"
  by (simp add: onMcpToolCallItem_def noExplicitText_def resultFields_def
        textFree_def event_simps)

lemma fresh_collab: "noExplicitText item \<Longrightarrow>
  allTextFree (onCollabToolCallItem ''item/completed'' pr item i)"
  by (simp add: onCollabToolCallItem_def noExplicitText_def resultFields_def
        textFree_def event_simps)

lemma fresh_web: "noExplicitText item \<Longrightarrow>
  allTextFree (onWebSearchItem ''item/completed'' pr item i)"
  by (simp add: onWebSearchItem_def noExplicitText_def resultFields_def
        textFree_def event_simps)

lemma fresh_image: "noExplicitText item \<Longrightarrow>
  allTextFree (onImageViewItem ''item/completed'' pr item i)"
  by (simp add: onImageViewItem_def noExplicitText_def resultFields_def
        textFree_def event_simps)

lemma fresh_review: "allTextFree (onReviewModeItem ty pr item i)"
  by (simp add: onReviewModeItem_def textFree_def event_simps)

lemma fresh_compaction: "allTextFree (onContextCompactionItem m pr item i)"
  by (simp add: onContextCompactionItem_def textFree_def event_simps)

lemma fresh_item: "noExplicitText (extractItem pr) \<Longrightarrow>
  allTextFree (fst (onItem render newConverter ''item/completed'' pr))"
  by (simp add: onItem_def Let_def fresh_agent fresh_reasoning fresh_plan fresh_command fresh_filechange
        fresh_mcp fresh_collab fresh_web fresh_image fresh_review fresh_compaction
        split: option.splits)

text \<open>
  C8. \<^verbatim>\<open>reset()\<close> empties the five stream buffers and the two metadata caches whatever the
  converter held before, so the converter then answers every notification as a new converter
  does; in particular, completing an item whose completion payload has no text of its own
  yields no event that carries a message, text, output or stdout: what was buffered before
  the reset does not come back.
\<close>

theorem reset_clears_buffers:
  "agentMessageBuffers (reset s) = Map.empty \<and> reasoningBuffers (reset s) = Map.empty
   \<and> planBuffers (reset s) = Map.empty \<and> commandOutputBuffers (reset s) = Map.empty
   \<and> fileChangeOutputBuffers (reset s) = Map.empty
   \<and> commandMeta (reset s) = Map.empty \<and> fileChangeMeta (reset s) = Map.empty
   \<and> handleNotification render (reset s) method params
       = handleNotification render newConverter method params
   \<and> (noExplicitText (itemOf params) \<longrightarrow>
        allTextFree (fst (handleNotification render (reset s) ''item/completed'' params)))"
proof -
  have fields: "agentMessageBuffers (reset s) = Map.empty \<and> reasoningBuffers (reset s) = Map.empty
   \<and> planBuffers (reset s) = Map.empty \<and> commandOutputBuffers (reset s) = Map.empty
   \<and> fileChangeOutputBuffers (reset s) = Map.empty
   \<and> commandMeta (reset s) = Map.empty \<and> fileChangeMeta (reset s) = Map.empty"
    by (simp add: reset_def)
  have same: "handleNotification render (reset s) method params
       = handleNotification render newConverter method params"
    by (simp only: reset_new)
  have free: "allTextFree (fst (handleNotification render (reset s) ''item/completed'' params))"
    if "noExplicitText (itemOf params)"
    using that fresh_item [of "paramsOf params" render]
    by (simp add: reset_new handleNotification_def itemOf_def paramsOf_def)
  from fields same free show ?thesis by blast
qed

theorem reset_clears_buffers_witness:
  "noExplicitText (itemOf exPlanCompleted)
   \<and> planBuffers exBuffered ''plan-1'' = Some ''Step A''
   \<and> planBuffers (reset exBuffered) ''plan-1'' = None
   \<and> allTextFree (fst (handleNotification exRender (reset exBuffered) ''item/completed'' exPlanCompleted))"
proof -
  have h: "noExplicitText (itemOf exPlanCompleted)" by code_simp
  have b: "planBuffers exBuffered ''plan-1'' = Some ''Step A''" by code_simp
  note r = reset_clears_buffers [of exBuffered exRender "''item/completed''" exPlanCompleted]
  from r have e: "planBuffers (reset exBuffered) = Map.empty" by blast
  from r h have f: "allTextFree (fst (handleNotification exRender (reset exBuffered)
                      ''item/completed'' exPlanCompleted))" by blast
  from h b e f show ?thesis by simp
qed

section \<open>File changes\<close>

lemma map_of_spread_optVal:
  "map_of (spread tgt (optVal k v)) k' =
     (if k' = k then (case v of Some x \<Rightarrow> Some x | None \<Rightarrow> map_of tgt k') else map_of tgt k')"
  by (simp add: optVal_def map_of_set_field split: option.splits)

lemma map_of_spread_optNum:
  "map_of (spread tgt (optNum k v)) k' =
     (if k' = k then (case v of Some n \<Rightarrow> Some (JNum n) | None \<Rightarrow> map_of tgt k') else map_of tgt k')"
  by (simp add: optNum_def map_of_set_field split: option.splits)

lemma asBoolean_boolOrFalse: "orDefault (asBoolean v) False = boolOrFalse v"
  by (cases v) (simp_all add: asBoolean_def boolOrFalse_def orDefault_def)

lemma patchSuccess_spec: "patchSuccess item = patchSuccessSpec item"
  by (simp add: patchSuccess_def patchSuccessSpec_def asBoolean_boolOrFalse)
     (simp add: boolOrFalse_def)

lemma patchEndEvent_success:
  "\<exists>kvs. patchEndEvent render meta buffered pr item i = JObj kvs
         \<and> map_of kvs ''success'' = Some (JBool (patchSuccess item))"
  by (simp add: patchEndEvent_def event_simps)

lemma onItem_filechange:
  "itemTypeOf (extractItem pr) = Some ''filechange'' \<Longrightarrow> itemIdOf pr (extractItem pr) = Some i \<Longrightarrow>
   onItem render s m pr = onFileChangeItem render s m pr (extractItem pr) i"
  by (simp add: onItem_def Let_def nonEmpty_def)

text \<open>
  C10. The event for a completed file change carries a boolean \<open>success\<close>, whatever the
  converter holds for the item: the first of the item's success, ok and applied that is
  neither null nor undefined decides (true only when it is the boolean true), and when all
  three are missing the success is whether the item's status is the string "completed".
\<close>

theorem patch_apply_end_success:
  assumes "itemTypeOf (itemOf params) = Some ''filechange''"
    and "itemIdOf (paramsOf params) (itemOf params) = Some i"
  shows "\<exists>e. fst (handleNotification render s ''item/completed'' params) = [e]
            \<and> fld e ''success'' = JBool (patchSuccessSpec (itemOf params))"
proof -
  let ?pr = "paramsOf params" and ?item = "itemOf params"
  let ?e = "patchEndEvent render (orDefault (fileChangeMeta s i) []) (fileChangeOutputBuffers s i)
              ?pr ?item i"
  have "handleNotification render s ''item/completed'' params
          = onFileChangeItem render s ''item/completed'' ?pr ?item i"
    using assms onItem_filechange [of ?pr i render s "''item/completed''"]
    by (simp add: handleNotification_def itemOf_def paramsOf_def)
  then have ev: "fst (handleNotification render s ''item/completed'' params) = [?e]"
    by (simp add: onFileChangeItem_def)
  obtain kvs where "?e = JObj kvs" and "map_of kvs ''success'' = Some (JBool (patchSuccess ?item))"
    using patchEndEvent_success by blast
  then have "fld ?e ''success'' = JBool (patchSuccessSpec ?item)"
    by (simp add: patchSuccess_spec)
  with ev show ?thesis by blast
qed

theorem patch_apply_end_success_witness:
  "itemTypeOf (itemOf exPatchCompleted) = Some ''filechange''
   \<and> itemIdOf (paramsOf exPatchCompleted) (itemOf exPatchCompleted) = Some ''patch-1''
   \<and> (\<exists>e. fst (handleNotification exRender newConverter ''item/completed'' exPatchCompleted) = [e]
           \<and> fld e ''success'' = JBool True)"
proof -
  have t: "itemTypeOf (itemOf exPatchCompleted) = Some ''filechange''" by code_simp
  have i: "itemIdOf (paramsOf exPatchCompleted) (itemOf exPatchCompleted) = Some ''patch-1''"
    by code_simp
  have v: "patchSuccessSpec (itemOf exPatchCompleted) = True" by code_simp
  from patch_apply_end_success [OF t i, of exRender newConverter] v t i show ?thesis by simp
qed

section \<open>Turn completion\<close>




text \<open>The two statuses the specification names, evaluated.\<close>

lemma turn_completed_interrupted:
  "fst (handleNotification exRender newConverter ''turn/completed'' exTurnInterrupted)
     = [JObj [(''type'', JStr ''turn_aborted''), (''turn_id'', JStr ''turn-1''),
              (''thread_id'', JStr ''thread-1''), (''status'', JStr ''Interrupted'')]]"
  by code_simp

lemma turn_completed_failed:
  "fst (handleNotification exRender newConverter ''turn/completed'' exTurnFailed)
     = [JObj [(''type'', JStr ''task_failed''), (''turn_id'', JStr ''turn-1''),
              (''error'', JStr ''boom''), (''thread_id'', JStr ''thread-1''),
              (''status'', JStr ''Failed'')]]"
  by code_simp

section \<open>Error notifications\<close>

lemma errorWillRetry_flag: "errorWillRetry pr = retryFlagSpec pr"
proof (cases "nullish (fld pr ''will_retry'')")
  case True
  then show ?thesis
    by (cases "fld pr ''willRetry''")
       (auto simp: errorWillRetry_def retryFlagSpec_def asBoolean_def orDefault_def nullish_def)
next
  case False
  then show ?thesis
    by (cases "fld pr ''will_retry''")
       (auto simp: errorWillRetry_def retryFlagSpec_def asBoolean_def orDefault_def nullish_def)
qed

lemma errorMessageOf_nonempty: "errorMessageOf pr \<noteq> []"
  by (auto simp: errorMessageOf_def orDefault_def orElse_def asString_def
           split: option.splits json.splits if_splits)

lemma onError_event:
  "\<not> errorWillRetry pr \<Longrightarrow>
   \<exists>kvs. onError pr = [JObj kvs]
         \<and> map_of kvs ''type'' = Some (JStr ''task_failed'')
         \<and> map_of kvs ''error'' = Some (JStr (errorMessageOf pr))
         \<and> map_of kvs ''codex_error_info'' = errorCodexErrorInfo pr
         \<and> map_of kvs ''additional_details'' = errorAdditionalDetails pr
         \<and> map_of kvs ''http_status_code'' = map_option JNum (errorHttpStatusCode pr)"
  by (simp add: onError_def event_simps map_of_spread_optVal map_of_spread_optNum
           split: option.splits)

lemma coalesce_firstGiven:
  "nullish (coalesce vs) = nullish (firstGiven vs)"
  "\<not> nullish (coalesce vs) \<Longrightarrow> coalesce vs = firstGiven vs"
  by (induction vs rule: coalesce.induct) auto

lemma asRecord_objectOrUndef: "orUndef (asRecord v) = objectOrUndef v"
  by (cases v) (simp_all add: asRecord_def orUndef_def objectOrUndef_def isObject_def)

lemma objectOrUndef_nullish: "nullish v \<Longrightarrow> objectOrUndef v = JUndef"
  by (auto simp: nullish_def objectOrUndef_def isObject_def)

lemma asRecord_coalesce: "orUndef (asRecord (coalesce vs)) = objectOrUndef (firstGiven vs)"
proof (cases "nullish (coalesce vs)")
  case True
  then have "nullish (firstGiven vs)" by (simp add: coalesce_firstGiven(1))
  with True show ?thesis by (simp add: asRecord_objectOrUndef objectOrUndef_nullish)
next
  case False
  then have "coalesce vs = firstGiven vs" by (rule coalesce_firstGiven(2))
  then show ?thesis by (simp only: asRecord_objectOrUndef)
qed

lemma ofld_orUndef: "ofld r k = fld (orUndef r) k"
  by (cases r) (simp_all add: ofld_def orUndef_def)

lemma errorRecord_spec: "ofld (asRecord (fld pr ''error'')) k = fld (errorObjectSpec pr) k"
  by (simp add: ofld_orUndef asRecord_objectOrUndef errorObjectSpec_def)

lemma errorCodexErrorInfo_spec: "orUndef (errorCodexErrorInfo pr) = errorInfoSpec pr"
  unfolding errorCodexErrorInfo_def errorInfoSpec_def Let_def errorRecord_spec
  by (rule asRecord_coalesce)

lemma errorAdditionalDetails_spec: "orUndef (errorAdditionalDetails pr) = additionalDetailsSpec pr"
  unfolding errorAdditionalDetails_def additionalDetailsSpec_def Let_def errorRecord_spec
  by (rule asRecord_coalesce)

lemma asNumber_finiteOrUndef: "orUndef (map_option JNum (asNumber v)) = finiteOrUndef v"
  by (cases v) (simp_all add: asNumber_def orUndef_def finiteOrUndef_def split: jsnumber.splits)

lemma finiteOrUndef_nullish: "nullish v \<Longrightarrow> finiteOrUndef v = JUndef"
  by (auto simp: nullish_def finiteOrUndef_def)

lemma asNumber_coalesce: "orUndef (map_option JNum (asNumber (coalesce vs))) = finiteOrUndef (firstGiven vs)"
proof (cases "nullish (coalesce vs)")
  case True
  then have "nullish (firstGiven vs)" by (simp add: coalesce_firstGiven(1))
  with True show ?thesis by (simp add: asNumber_finiteOrUndef finiteOrUndef_nullish)
next
  case False
  then have "coalesce vs = firstGiven vs" by (rule coalesce_firstGiven(2))
  then show ?thesis by (simp only: asNumber_finiteOrUndef)
qed

lemma errorHttpStatusCode_spec: "orUndef (map_option JNum (errorHttpStatusCode pr)) = httpStatusSpec pr"
proof -
  have i: "ofld (errorCodexErrorInfo pr) k = fld (errorInfoSpec pr) k" for k
    by (simp add: ofld_orUndef errorCodexErrorInfo_spec)
  show ?thesis
    unfolding errorHttpStatusCode_def httpStatusSpec_def Let_def i
    by (rule asNumber_coalesce)
qed

lemma asString_isText: "asString v = (if isText v then (case v of JStr t \<Rightarrow> Some t | _ \<Rightarrow> None) else None)"
  by (cases v) (simp_all add: asString_def isText_def)

lemma isText_JStr: "isText v \<Longrightarrow> \<exists>t. v = JStr t \<and> t \<noteq> []"
  by (cases v) (simp_all add: isText_def)

lemma errorMessageOf_spec: "JStr (errorMessageOf pr) = errorMessageSpec pr"
proof -
  let ?a = "fld pr ''message''" and ?b = "fld (errorObjectSpec pr) ''message''" and ?c = "fld pr ''reason''"
  have m: "errorMessageOf pr =
             orDefault (orElse (asString ?a) (orElse (asString ?b) (asString ?c))) ''Unknown app-server error''"
    by (simp add: errorMessageOf_def Let_def errorRecord_spec)
  show ?thesis
    unfolding m errorMessageSpec_def
    by (cases "isText ?a"; cases "isText ?b"; cases "isText ?c")
       (auto simp add: asString_isText orElse_def orDefault_def dest: isText_JStr)
qed

text \<open>
  C5. An \<^verbatim>\<open>error\<close> notification whose retry flag is true (\<^verbatim>\<open>will_retry\<close>, or
  \<^verbatim>\<open>willRetry\<close> when \<^verbatim>\<open>will_retry\<close> is not given) yields no event. Every other one yields
  exactly one \<open>task_failed\<close> event that carries: as \<open>error\<close> the message (the first non-empty
  string among the payload's message, its error object's message and its reason, a fixed
  text otherwise); as \<open>codex_error_info\<close> the error-info object and as \<open>additional_details\<close>
  the additional-details object, each when the payload or its error object gives one; as
  \<open>http_status_code\<close> the status code when the error-info object or the payload gives a
  finite number. A part that is not given is absent from the event. The converter is left as
  it was.
\<close>

theorem error_retry_suppression:
  "(retryFlagSpec (paramsOf params) \<longrightarrow> handleNotification render s ''error'' params = ([], s))
   \<and> (\<not> retryFlagSpec (paramsOf params) \<longrightarrow>
        (\<exists>e. handleNotification render s ''error'' params = ([e], s)
            \<and> fld e ''type'' = JStr ''task_failed''
            \<and> fld e ''error'' = errorMessageSpec (paramsOf params)
            \<and> isText (errorMessageSpec (paramsOf params))
            \<and> fld e ''codex_error_info'' = errorInfoSpec (paramsOf params)
            \<and> fld e ''additional_details'' = additionalDetailsSpec (paramsOf params)
            \<and> fld e ''http_status_code'' = httpStatusSpec (paramsOf params)))"
proof (cases "retryFlagSpec (paramsOf params)")
  case True
  then show ?thesis
    by (simp add: handleNotification_def paramsOf_def onError_def errorWillRetry_flag)
next
  case False
  let ?pr = "paramsOf params"
  from False obtain kvs where k: "onError ?pr = [JObj kvs]"
      "map_of kvs ''type'' = Some (JStr ''task_failed'')"
      "map_of kvs ''error'' = Some (JStr (errorMessageOf ?pr))"
      "map_of kvs ''codex_error_info'' = errorCodexErrorInfo ?pr"
      "map_of kvs ''additional_details'' = errorAdditionalDetails ?pr"
      "map_of kvs ''http_status_code'' = map_option JNum (errorHttpStatusCode ?pr)"
    using onError_event [of ?pr] by (auto simp: errorWillRetry_flag)
  have h: "handleNotification render s ''error'' params = ([JObj kvs], s)"
    using k(1) by (simp add: handleNotification_def paramsOf_def)
  have f1: "fld (JObj kvs) ''type'' = JStr ''task_failed''"
    using k(2) by simp
  have f2: "fld (JObj kvs) ''error'' = errorMessageSpec ?pr"
    using k(3) by (simp add: errorMessageOf_spec)
  have f3: "isText (errorMessageSpec ?pr)"
    using errorMessageOf_nonempty [of ?pr] errorMessageOf_spec [of ?pr, symmetric]
    by (simp add: isText_def)
  have "fld (JObj kvs) ''codex_error_info'' = orUndef (errorCodexErrorInfo ?pr)"
    using k(4) by (simp add: orUndef_def split: option.splits)
  then have f4: "fld (JObj kvs) ''codex_error_info'' = errorInfoSpec ?pr"
    by (simp only: errorCodexErrorInfo_spec)
  have "fld (JObj kvs) ''additional_details'' = orUndef (errorAdditionalDetails ?pr)"
    using k(5) by (simp add: orUndef_def split: option.splits)
  then have f5: "fld (JObj kvs) ''additional_details'' = additionalDetailsSpec ?pr"
    by (simp only: errorAdditionalDetails_spec)
  have "fld (JObj kvs) ''http_status_code'' = orUndef (map_option JNum (errorHttpStatusCode ?pr))"
    using k(6) by (simp add: orUndef_def split: option.splits)
  then have f6: "fld (JObj kvs) ''http_status_code'' = httpStatusSpec ?pr"
    by (simp only: errorHttpStatusCode_spec)
  from False h f1 f2 f3 f4 f5 f6 show ?thesis by blast
qed

theorem error_retry_suppression_witness:
  "retryFlagSpec (paramsOf exErrorRetry)
   \<and> handleNotification exRender newConverter ''error'' exErrorRetry = ([], newConverter)
   \<and> \<not> retryFlagSpec (paramsOf exErrorFinal)
   \<and> (\<exists>e. handleNotification exRender newConverter ''error'' exErrorFinal = ([e], newConverter)
           \<and> fld e ''type'' = JStr ''task_failed''
           \<and> fld e ''error'' = JStr ''Upstream failed''
           \<and> fld e ''codex_error_info''
                = JObj [(''kind'', JStr ''HttpConnectionFailed''), (''httpStatusCode'', JNum (Finite 502))]
           \<and> fld e ''additional_details'' = JObj [(''upstream'', JStr ''openai'')]
           \<and> fld e ''http_status_code'' = JNum (Finite 502))
   \<and> \<not> retryFlagSpec (paramsOf exErrorPlain)
   \<and> (\<exists>e. handleNotification exRender newConverter ''error'' exErrorPlain = ([e], newConverter)
           \<and> fld e ''type'' = JStr ''task_failed''
           \<and> fld e ''error'' = JStr ''gave up''
           \<and> fld e ''codex_error_info'' = JUndef
           \<and> fld e ''additional_details'' = JObj [(''attempt'', JNum (Finite 3))]
           \<and> fld e ''http_status_code'' = JNum (Finite 429))"
proof -
  have r: "retryFlagSpec (paramsOf exErrorRetry)" by code_simp
  have n: "\<not> retryFlagSpec (paramsOf exErrorFinal)" by code_simp
  have p: "\<not> retryFlagSpec (paramsOf exErrorPlain)" by code_simp
  have v: "errorMessageSpec (paramsOf exErrorFinal) = JStr ''Upstream failed''"
    "errorInfoSpec (paramsOf exErrorFinal)
       = JObj [(''kind'', JStr ''HttpConnectionFailed''), (''httpStatusCode'', JNum (Finite 502))]"
    "additionalDetailsSpec (paramsOf exErrorFinal) = JObj [(''upstream'', JStr ''openai'')]"
    "httpStatusSpec (paramsOf exErrorFinal) = JNum (Finite 502)"
    by code_simp+
  have w: "errorMessageSpec (paramsOf exErrorPlain) = JStr ''gave up''"
    "errorInfoSpec (paramsOf exErrorPlain) = JUndef"
    "additionalDetailsSpec (paramsOf exErrorPlain) = JObj [(''attempt'', JNum (Finite 3))]"
    "httpStatusSpec (paramsOf exErrorPlain) = JNum (Finite 429)"
    by code_simp+
  from error_retry_suppression [of exErrorRetry exRender newConverter] r
  have a: "handleNotification exRender newConverter ''error'' exErrorRetry = ([], newConverter)"
    by blast
  from error_retry_suppression [of exErrorFinal exRender newConverter] n
  have b: "\<exists>e. handleNotification exRender newConverter ''error'' exErrorFinal = ([e], newConverter)
           \<and> fld e ''type'' = JStr ''task_failed''
           \<and> fld e ''error'' = JStr ''Upstream failed''
           \<and> fld e ''codex_error_info''
                = JObj [(''kind'', JStr ''HttpConnectionFailed''), (''httpStatusCode'', JNum (Finite 502))]
           \<and> fld e ''additional_details'' = JObj [(''upstream'', JStr ''openai'')]
           \<and> fld e ''http_status_code'' = JNum (Finite 502)"
    unfolding v by blast
  from error_retry_suppression [of exErrorPlain exRender newConverter] p
  have c: "\<exists>e. handleNotification exRender newConverter ''error'' exErrorPlain = ([e], newConverter)
           \<and> fld e ''type'' = JStr ''task_failed''
           \<and> fld e ''error'' = JStr ''gave up''
           \<and> fld e ''codex_error_info'' = JUndef
           \<and> fld e ''additional_details'' = JObj [(''attempt'', JNum (Finite 3))]
           \<and> fld e ''http_status_code'' = JNum (Finite 429)"
    unfolding w by blast
  from r a n b p c show ?thesis by blast
qed

section \<open>Command execution\<close>

lemma normalize_commandExecution: "normalizeItemType (JStr ''commandExecution'') = Some ''commandexecution''"
  by code_simp

lemma command_started_step:
  "i \<noteq> [] \<Longrightarrow>
   handleNotification render s ''item/started'' (commandStarted i)
     = ([JObj [(''type'', JStr ''exec_command_begin''), (''call_id'', JStr i), (''item_id'', JStr i),
               (''command'', JStr ''ls'')]],
        s\<lparr>commandMeta := (commandMeta s)(i \<mapsto> [(''command'', JStr ''ls'')])\<rparr>)"
  by (simp add: handleNotification_def commandStarted_def recordOr_def asRecord_def onItem_def
        extractItem_def itemTypeOf_def itemIdOf_def extractItemId_def asString_def orElse_def
        nonEmpty_def normalize_commandExecution onCommandExecutionItem_def commandMetaOf_def
        extractCommand_def extractThreadId_def extractTurnId_def subRecord_def ofld_def
        asBoolean_def itemStatus_def addStableFields_def pickStatus_def setIfString_def optStr_def
        optBool_def objLit_def Let_def)

lemma output_delta_step:
  "i \<noteq> [] \<Longrightarrow> d \<noteq> [] \<Longrightarrow>
   handleNotification render s ''item/commandExecution/outputDelta'' (outputDelta i d)
     = ([], s\<lparr>commandOutputBuffers := appendTo (commandOutputBuffers s) i d\<rparr>)"
  by (simp add: handleNotification_def outputDelta_def recordOr_def asRecord_def
        onCommandOutputDelta_def extractItemId_def asString_def asText_def nonEmpty_def)

lemma command_completed_step:
  "i \<noteq> [] \<Longrightarrow> commandMeta s i = Some [(''command'', JStr ''ls'')] \<Longrightarrow>
   commandOutputBuffers s i = Some out \<Longrightarrow> out \<noteq> [] \<Longrightarrow>
   handleNotification render s ''item/completed'' (commandCompleted i)
     = ([JObj [(''type'', JStr ''exec_command_end''), (''call_id'', JStr i), (''item_id'', JStr i),
               (''command'', JStr ''ls''), (''output'', JStr out), (''exit_code'', JNum (Finite 0))]],
        s\<lparr>commandMeta := (commandMeta s)(i := None),
           commandOutputBuffers := (commandOutputBuffers s)(i := None)\<rparr>)"
  by (simp add: handleNotification_def commandCompleted_def recordOr_def asRecord_def onItem_def
        extractItem_def itemTypeOf_def itemIdOf_def extractItemId_def asString_def orElse_def
        nonEmpty_def normalize_commandExecution onCommandExecutionItem_def commandEndEvent_def
        extractThreadId_def extractTurnId_def subRecord_def ofld_def asText_def asNumber_def
        itemStatus_def addStableFields_def pickStatus_def setIfString_def optStr_def
        optNum_def objLit_def orDefault_def Let_def)

text \<open>
  C3. For a command item with id \<open>i\<close> and a converter that holds no output for it: the start
  of command "ls", the output deltas "o" and "k" and the completion with exit code 0 and no
  output of its own yield the begin event and then an \<open>exec_command_end\<close> with output "ok",
  exit code 0 and the command "ls" kept from the start; afterwards the converter holds neither
  metadata nor output for \<open>i\<close>.
\<close>

theorem command_output_scenario:
  assumes "i \<noteq> []" and "commandOutputBuffers s i = None"
  shows "handleAll render s (commandScenario i)
     = ([JObj [(''type'', JStr ''exec_command_begin''), (''call_id'', JStr i), (''item_id'', JStr i),
               (''command'', JStr ''ls'')],
         JObj [(''type'', JStr ''exec_command_end''), (''call_id'', JStr i), (''item_id'', JStr i),
               (''command'', JStr ''ls''), (''output'', JStr ''ok''), (''exit_code'', JNum (Finite 0))]],
        s\<lparr>commandMeta := (commandMeta s)(i := None),
           commandOutputBuffers := (commandOutputBuffers s)(i := None)\<rparr>)"
proof -
  let ?s1 = "s\<lparr>commandMeta := (commandMeta s)(i \<mapsto> [(''command'', JStr ''ls'')])\<rparr>"
  let ?s2 = "?s1\<lparr>commandOutputBuffers := appendTo (commandOutputBuffers ?s1) i ''o''\<rparr>"
  let ?s3 = "?s2\<lparr>commandOutputBuffers := appendTo (commandOutputBuffers ?s2) i ''k''\<rparr>"
  have m: "commandMeta ?s3 i = Some [(''command'', JStr ''ls'')]" by simp
  have b: "commandOutputBuffers ?s3 i = Some ''ok''"
    using assms(2) by (simp add: appendTo_def orDefault_def)
  have fin: "?s3\<lparr>commandMeta := (commandMeta ?s3)(i := None),
                 commandOutputBuffers := (commandOutputBuffers ?s3)(i := None)\<rparr>
             = s\<lparr>commandMeta := (commandMeta s)(i := None),
                  commandOutputBuffers := (commandOutputBuffers s)(i := None)\<rparr>"
    by (simp add: appendTo_def)
  show ?thesis
    unfolding commandScenario_def
    using assms(1) command_completed_step [OF assms(1) m b, of render] fin
    by (simp add: command_started_step output_delta_step del: fun_upd_apply)
qed

theorem command_output_scenario_witness:
  "''cmd-1'' \<noteq> [] \<and> commandOutputBuffers newConverter ''cmd-1'' = None
   \<and> fst (handleAll exRender newConverter (commandScenario ''cmd-1''))
     = [JObj [(''type'', JStr ''exec_command_begin''), (''call_id'', JStr ''cmd-1''),
              (''item_id'', JStr ''cmd-1''), (''command'', JStr ''ls'')],
        JObj [(''type'', JStr ''exec_command_end''), (''call_id'', JStr ''cmd-1''),
              (''item_id'', JStr ''cmd-1''), (''command'', JStr ''ls''), (''output'', JStr ''ok''),
              (''exit_code'', JNum (Finite 0))]]
   \<and> commandMeta (snd (handleAll exRender newConverter (commandScenario ''cmd-1''))) ''cmd-1'' = None
   \<and> commandOutputBuffers (snd (handleAll exRender newConverter (commandScenario ''cmd-1''))) ''cmd-1'' = None"
proof -
  have a: "''cmd-1'' \<noteq> []" by simp
  have b: "commandOutputBuffers newConverter ''cmd-1'' = None" by (simp add: newConverter_def)
  from command_output_scenario [OF a b, of exRender] a b show ?thesis by simp
qed

section \<open>Message deltas\<close>

lemma handleAll_append:
  "handleAll render s (xs @ ys) =
     (fst (handleAll render s xs) @ fst (handleAll render (snd (handleAll render s xs)) ys),
      snd (handleAll render (snd (handleAll render s xs)) ys))"
  by (induction xs arbitrary: s) (auto simp: split_beta)

lemma message_delta_step:
  "handleNotification render s ''item/agentMessage/delta'' (JObj [(''itemId'', JStr i), (''delta'', JStr d)])
     = ([], bufferMessage i s d)"
  by (simp add: handleNotification_def recordOr_def asRecord_def onAgentMessageDelta_def
        extractItemId_def deltaString_def asString_def bufferMessage_def)

lemma message_deltas_run:
  "handleAll render s (messageDeltas i frags) = ([], foldl (bufferMessage i) s frags)"
  by (induction frags arbitrary: s) (simp_all add: messageDeltas_def message_delta_step)

lemma appendTo_twice: "appendTo (appendTo b i d) i r = appendTo b i (d @ r)"
  by (simp add: appendTo_def orDefault_def)

lemma bufferMessage_twice: "bufferMessage i (bufferMessage i s d) r = bufferMessage i s (d @ r)"
  by (simp add: bufferMessage_def appendTo_twice)

lemma bufferMessage_empty: "bufferMessage i s [] = s"
  by (simp add: bufferMessage_def)

lemma bufferMessage_concat: "foldl (bufferMessage i) s frags = bufferMessage i s (concat frags)"
proof (induction frags arbitrary: s)
  case Nil
  show ?case by (simp add: bufferMessage_empty)
next
  case (Cons d frags)
  show ?case by (simp add: Cons.IH bufferMessage_twice)
qed

lemma normalize_agentMessage: "normalizeItemType (JStr ''agentMessage'') = Some ''agentmessage''"
  by code_simp

lemma message_completed_step:
  "i \<noteq> [] \<Longrightarrow> agentMessageBuffers s i = Some t \<Longrightarrow> t \<noteq> [] \<Longrightarrow>
   fst (handleNotification render s ''item/completed'' (messageCompleted i))
     = [JObj [(''type'', JStr ''agent_message''), (''message'', JStr t), (''item_id'', JStr i)]]"
  by (simp add: handleNotification_def messageCompleted_def recordOr_def asRecord_def onItem_def
        extractItem_def itemTypeOf_def itemIdOf_def extractItemId_def asString_def orElse_def
        nonEmpty_def normalize_agentMessage onAgentMessageItem_def itemText_def
        extractThreadId_def extractTurnId_def subRecord_def ofld_def
        itemStatus_def addStableFields_def pickStatus_def setIfString_def optStr_def
        objLit_def Let_def)

text \<open>
  C4. However a text is split into consecutive fragments, sending the fragments as message
  deltas for an item and then any completion gives the same events and the same converter as
  sending the whole text as one delta and then that completion. When the item has an id, the
  text is not empty, the converter held nothing for the item and the completion has no text
  of its own, the event is the \<open>agent_message\<close> whose message is the whole text.
\<close>

theorem agent_message_delta_associativity:
  "handleAll render s (messageDeltas i frags @ [(''item/completed'', completion)])
     = handleAll render s (messageDeltas i [concat frags] @ [(''item/completed'', completion)])
   \<and> (i \<noteq> [] \<and> concat frags \<noteq> [] \<and> agentMessageBuffers s i = None \<longrightarrow>
        fst (handleAll render s (messageDeltas i frags @ [(''item/completed'', messageCompleted i)]))
          = [JObj [(''type'', JStr ''agent_message''), (''message'', JStr (concat frags)),
                   (''item_id'', JStr i)]])"
proof -
  have run: "handleAll render s (messageDeltas i fs @ [(''item/completed'', c)])
        = (fst (handleNotification render (bufferMessage i s (concat fs)) ''item/completed'' c),
           snd (handleNotification render (bufferMessage i s (concat fs)) ''item/completed'' c))"
    for fs c
    by (simp add: handleAll_append message_deltas_run bufferMessage_concat split_beta)
  have same: "handleAll render s (messageDeltas i frags @ [(''item/completed'', completion)])
     = handleAll render s (messageDeltas i [concat frags] @ [(''item/completed'', completion)])"
    by (simp only: run) simp
  have whole: "fst (handleAll render s (messageDeltas i frags @ [(''item/completed'', messageCompleted i)]))
          = [JObj [(''type'', JStr ''agent_message''), (''message'', JStr (concat frags)),
                   (''item_id'', JStr i)]]"
    if h: "i \<noteq> []" "concat frags \<noteq> []" "agentMessageBuffers s i = None"
  proof -
    have "agentMessageBuffers (bufferMessage i s (concat frags)) i = Some (concat frags)"
      using h by (simp add: bufferMessage_def appendTo_def orDefault_def)
    from message_completed_step [OF h(1) this h(2), of render] show ?thesis
      by (simp only: run fst_conv)
  qed
  from same whole show ?thesis by blast
qed

theorem agent_message_delta_associativity_witness:
  "fst (handleAll exRender newConverter
          (messageDeltas ''msg-1'' [''Hello'', '' world''] @ [(''item/completed'', messageCompleted ''msg-1'')]))
     = [JObj [(''type'', JStr ''agent_message''), (''message'', JStr ''Hello world''),
              (''item_id'', JStr ''msg-1'')]]
   \<and> handleAll exRender newConverter
        (messageDeltas ''msg-1'' [''Hello'', '' world''] @ [(''item/completed'', messageCompleted ''msg-1'')])
     = handleAll exRender newConverter
        (messageDeltas ''msg-1'' [''Hello world''] @ [(''item/completed'', messageCompleted ''msg-1'')])"
proof -
  have b: "agentMessageBuffers newConverter ''msg-1'' = None" by (simp add: newConverter_def)
  have c: "concat [''Hello'', '' world''] = ''Hello world''" by simp
  note t = agent_message_delta_associativity
         [of exRender newConverter "''msg-1''" "[''Hello'', '' world'']" "messageCompleted ''msg-1''"]
  from t [unfolded c] have same: "handleAll exRender newConverter
        (messageDeltas ''msg-1'' [''Hello'', '' world''] @ [(''item/completed'', messageCompleted ''msg-1'')])
     = handleAll exRender newConverter
        (messageDeltas ''msg-1'' [''Hello world''] @ [(''item/completed'', messageCompleted ''msg-1'')])"
    by (rule conjunct1)
  from t [unfolded c] have
    "''msg-1'' \<noteq> [] \<and> ''Hello world'' \<noteq> [] \<and> agentMessageBuffers newConverter ''msg-1'' = None \<longrightarrow>
     fst (handleAll exRender newConverter
          (messageDeltas ''msg-1'' [''Hello'', '' world''] @ [(''item/completed'', messageCompleted ''msg-1'')]))
     = [JObj [(''type'', JStr ''agent_message''), (''message'', JStr ''Hello world''),
              (''item_id'', JStr ''msg-1'')]]"
    by (rule conjunct2)
  with b have whole: "fst (handleAll exRender newConverter
          (messageDeltas ''msg-1'' [''Hello'', '' world''] @ [(''item/completed'', messageCompleted ''msg-1'')]))
     = [JObj [(''type'', JStr ''agent_message''), (''message'', JStr ''Hello world''),
              (''item_id'', JStr ''msg-1'')]]"
    by simp
  from whole same show ?thesis by (rule conjI)
qed

section \<open>Messages sent by the event handler\<close>

lemma sentMessages_append: "sentMessages (xs @ ys) = sentMessages xs @ sentMessages ys"
  by (induction xs rule: sentMessages.induct) simp_all

lemma map_of_foldl_spread_other:
  "\<forall>p\<in>set parts. k \<notin> fst ` set p \<Longrightarrow> map_of (foldl spread tgt parts) k = map_of tgt k"
  by (induction parts arbitrary: tgt) (simp_all add: map_of_spread_other)

lemma keys_optStr: "fst ` set (optStr k v) \<subseteq> {k}"
  by (auto simp: optStr_def split: option.splits if_splits)

lemma keys_set_field: "fst ` set (set_field k v kvs) = insert k (fst ` set kvs)"
proof (induction kvs)
  case Nil
  show ?case by simp
next
  case (Cons a kvs)
  obtain k' v' where a: "a = (k', v')" by (cases a)
  show ?case unfolding a using Cons.IH by (cases "k' = k") (simp_all add: insert_commute)
qed

lemma keys_spread: "fst ` set (spread tgt src) = fst ` set tgt \<union> fst ` set src"
proof (induction src arbitrary: tgt)
  case Nil
  show ?case by simp
next
  case (Cons a src)
  obtain k v where a: "a = (k, v)" by (cases a)
  show ?case unfolding a by (simp add: Cons.IH keys_set_field)
qed

lemma keys_foldl_spread:
  "fst ` set (foldl spread tgt parts) = fst ` set tgt \<union> (\<Union>p\<in>set parts. fst ` set p)"
proof (induction parts arbitrary: tgt)
  case Nil
  show ?case by simp
next
  case (Cons p parts)
  show ?case by (simp add: Cons.IH keys_spread Un_assoc)
qed

lemma keys_objLit: "fst ` set (objLit parts) = (\<Union>p\<in>set parts. fst ` set p)"
  by (simp add: objLit_def keys_foldl_spread)

lemma keys_optStr_in: "k \<in> S \<Longrightarrow> fst ` set (optStr k v) \<subseteq> S"
  using keys_optStr [of k v] by blast

lemma keys_toTraceFields:
  "fst ` set (toTraceFields source) \<subseteq> {''thread_id'', ''turn_id'', ''item_id'', ''status''}"
  unfolding toTraceFields_def keys_objLit
  by (simp only: set_simps UN_insert UN_empty Un_empty_right Un_subset_iff)
     (intro conjI keys_optStr_in; simp)

lemma toolCallMessage_fields:
  "fld (toolCallMessage name callId input source messageId) ''type'' = JStr ''tool-call''"
  "fld (toolCallMessage name callId input source messageId) ''callId'' = JStr callId"
  "fld (toolCallMessage name callId input source messageId) ''name'' = JStr name"
  "fld (toolCallMessage name callId input source messageId) ''input'' = input"
proof -
  have k: "k \<notin> fst ` set (toTraceFields source)"
    if "k \<noteq> ''thread_id''" "k \<noteq> ''turn_id''" "k \<noteq> ''item_id''" "k \<noteq> ''status''" for k
    using that keys_toTraceFields [of source] by auto
  show "fld (toolCallMessage name callId input source messageId) ''type'' = JStr ''tool-call''"
    "fld (toolCallMessage name callId input source messageId) ''callId'' = JStr callId"
    "fld (toolCallMessage name callId input source messageId) ''name'' = JStr name"
    "fld (toolCallMessage name callId input source messageId) ''input'' = input"
    by (simp_all add: toolCallMessage_def objLit_def map_of_set_field map_of_spread_other k)
qed

lemma toolResultMessage_fields:
  "fld (toolResultMessage callId output source isError messageId) ''type'' = JStr ''tool-call-result''"
  "fld (toolResultMessage callId output source isError messageId) ''callId'' = JStr callId"
  "fld (toolResultMessage callId output source isError messageId) ''output'' = output"
  "fld (toolResultMessage callId output source isError messageId) ''is_error'' = JBool isError"
proof -
  have k: "k \<notin> fst ` set (toTraceFields source)"
    if "k \<noteq> ''thread_id''" "k \<noteq> ''turn_id''" "k \<noteq> ''item_id''" "k \<noteq> ''status''" for k
    using that keys_toTraceFields [of source] by auto
  show "fld (toolResultMessage callId output source isError messageId) ''type'' = JStr ''tool-call-result''"
    "fld (toolResultMessage callId output source isError messageId) ''callId'' = JStr callId"
    "fld (toolResultMessage callId output source isError messageId) ''output'' = output"
    "fld (toolResultMessage callId output source isError messageId) ''is_error'' = JBool isError"
    by (simp_all add: toolResultMessage_def objLit_def map_of_set_field map_of_spread_other k)
qed

lemma isToolCall_simps:
  "isToolCall c (toolCallMessage name callId input source messageId) = (c = callId)"
  "isToolCall c (toolResultMessage callId output source isError messageId) = False"
  "isToolResult c (toolResultMessage callId output source isError messageId) = (c = callId)"
  "isToolResult c (toolCallMessage name callId input source messageId) = False"
  by (auto simp: isToolCall_def isToolResult_def toolCallMessage_fields toolResultMessage_fields)

lemma emitToolCall_eq:
  "emitToolCall uuid name callId input source s =
     s\<lparr>uuidCount := Suc (uuidCount s),
       effects := effects s @ [SendCodexMessage (toolCallMessage name callId input source (uuid (uuidCount s)))]\<rparr>"
  by (simp add: emitToolCall_def randomUUID_def perform_def)

lemma emitToolResult_eq:
  "emitToolResult uuid callId output source isError s =
     s\<lparr>uuidCount := Suc (uuidCount s),
       effects := effects s @ [SendCodexMessage
                                (toolResultMessage callId output source isError (uuid (uuidCount s)))]\<rparr>"
  by (simp add: emitToolResult_def randomUUID_def perform_def)

section \<open>Plan calls\<close>

lemma plan_update_step:
  assumes "isPlanUpdateOf t msg"
  shows "handleCodexEvent render uuid useAppServer s msg =
     s\<lparr>planCallIdByTurn := (planCallIdByTurn s)(t \<mapsto> ''turn-plan:'' @ t),
       uuidCount := Suc (uuidCount s),
       effects := effects s @ [SendCodexMessage
          (toolCallMessage ''ExitPlanMode'' (''turn-plan:'' @ t) (planUpdateInput msg) msg
             (uuid (uuidCount s)))]\<rparr>"
  using assms
  by (simp add: isPlanUpdateOf_def handleCodexEvent_def trackTurn_def isTerminal_def displayEvent_def
        beginTurn_def endTurn_def forwardReasoning_def forwardAgentMessage_def planEvents_def
        toolEvents_def onTurnPlanUpdatedEvent_def emitToolCall_eq planUpdateInput_def Let_def
        del: coalesce.simps)

lemma closePlanCall_open:
  assumes "eventTurnId msg = Some t" and "planCallIdByTurn s t = Some c" and "c \<noteq> []"
  shows "closePlanCall uuid ty msg s =
     s\<lparr>planCallIdByTurn := (planCallIdByTurn s)(t := None),
       uuidCount := Suc (uuidCount s),
       effects := effects s @ [SendCodexMessage
          (toolResultMessage c (planCloseOutput ty msg) msg (ty = ''task_failed'')
             (uuid (uuidCount s)))]\<rparr>"
  using assms
  by (simp add: closePlanCall_def nonEmpty_def emitToolResult_eq planCloseOutput_def Let_def)

lemma sentMessages_perform:
  "sentMessages (effects (perform e s)) = sentMessages (effects s) @ sentMessages [e]"
  by (simp add: perform_def sentMessages_append)

lemma terminal_step_sent:
  assumes "isTerminalOf t ty msg" and "planCallIdByTurn s t = Some c" and "c \<noteq> []"
  shows "sentMessages (effects (handleCodexEvent render uuid useAppServer s msg)) =
           sentMessages (effects s)
           @ toolResultMessage c (planCloseOutput ty msg) msg (ty = ''task_failed'') (uuid (uuidCount s))
           # (if ty = ''task_failed''
              then [JObj (set_field ''id'' (JStr (uuid (Suc (uuidCount s)))) (fieldsOf msg))]
              else [])"
    and "planCallIdByTurn (handleCodexEvent render uuid useAppServer s msg) = (planCallIdByTurn s)(t := None)"
proof -
  from assms(1) have ty: "asString (fld msg ''type'') = Some ty"
    and tid: "eventTurnId msg = Some t"
    and cases: "ty = ''task_complete'' \<or> ty = ''turn_aborted'' \<or> ty = ''task_failed''"
    by (auto simp: isTerminalOf_def isTerminal_def)
  note defs = handleCodexEvent_def trackTurn_def isTerminal_def displayEvent_def
        beginTurn_def endTurn_def forwardReasoning_def forwardAgentMessage_def planEvents_def
        toolEvents_def passThrough_def randomUUID_def sendReady_def onThinkingChange_def
        perform_def closePlanCall_open [OF tid] sentMessages_append Let_def
  from cases show "sentMessages (effects (handleCodexEvent render uuid useAppServer s msg)) =
           sentMessages (effects s)
           @ toolResultMessage c (planCloseOutput ty msg) msg (ty = ''task_failed'') (uuid (uuidCount s))
           # (if ty = ''task_failed''
              then [JObj (set_field ''id'' (JStr (uuid (Suc (uuidCount s)))) (fieldsOf msg))]
              else [])"
    using ty assms(2,3) by (elim disjE) (simp_all add: defs)
  from cases show "planCallIdByTurn (handleCodexEvent render uuid useAppServer s msg)
                     = (planCallIdByTurn s)(t := None)"
    using ty assms(2,3) by (elim disjE) (simp_all add: defs)
qed

lemma handleCodexEvents_append:
  "handleCodexEvents render uuid useAppServer s (xs @ ys) =
     handleCodexEvents render uuid useAppServer (handleCodexEvents render uuid useAppServer s xs) ys"
  by (induction xs arbitrary: s) simp_all

lemma plan_updates_run:
  assumes "planUpdatesOf t ups"
  shows "\<exists>new. sentMessages (effects (handleCodexEvents render uuid useAppServer s ups))
                 = sentMessages (effects s) @ new
             \<and> filter (isToolCall (''turn-plan:'' @ t)) new = new
             \<and> filter (isToolResult (''turn-plan:'' @ t)) new = []
             \<and> length new = length ups
             \<and> (ups \<noteq> [] \<longrightarrow>
                  planCallIdByTurn (handleCodexEvents render uuid useAppServer s ups) t
                    = Some (''turn-plan:'' @ t))"
  using assms
proof (induction ups arbitrary: s)
  case Nil
  show ?case by simp
next
  case (Cons u ups)
  let ?s1 = "handleCodexEvent render uuid useAppServer s u"
  let ?m = "toolCallMessage ''ExitPlanMode'' (''turn-plan:'' @ t) (planUpdateInput u) u (uuid (uuidCount s))"
  from Cons.prems have u: "isPlanUpdateOf t u" and rest: "planUpdatesOf t ups" by simp_all
  have s1: "sentMessages (effects ?s1) = sentMessages (effects s) @ [?m]"
    and p1: "planCallIdByTurn ?s1 t = Some (''turn-plan:'' @ t)"
    by (simp_all add: plan_update_step [OF u] sentMessages_append)
  from Cons.IH [OF rest, of ?s1] obtain new where
      n: "sentMessages (effects (handleCodexEvents render uuid useAppServer ?s1 ups))
            = sentMessages (effects ?s1) @ new"
         "filter (isToolCall (''turn-plan:'' @ t)) new = new"
         "filter (isToolResult (''turn-plan:'' @ t)) new = []"
         "length new = length ups"
         "ups \<noteq> [] \<longrightarrow> planCallIdByTurn (handleCodexEvents render uuid useAppServer ?s1 ups) t
                          = Some (''turn-plan:'' @ t)"
    by blast
  have "sentMessages (effects (handleCodexEvents render uuid useAppServer s (u # ups)))
          = sentMessages (effects s) @ (?m # new)"
    using n(1) s1 by simp
  moreover have "filter (isToolCall (''turn-plan:'' @ t)) (?m # new) = ?m # new"
    using n(2) by (simp add: isToolCall_simps)
  moreover have "filter (isToolResult (''turn-plan:'' @ t)) (?m # new) = []"
    using n(3) by (simp add: isToolCall_simps)
  moreover have "length (?m # new) = length (u # ups)"
    using n(4) by simp
  moreover have "planCallIdByTurn (handleCodexEvents render uuid useAppServer s (u # ups)) t
                   = Some (''turn-plan:'' @ t)"
    using n(5) p1 by (cases ups) simp_all
  ultimately show ?case by blast
qed

lemma passed_through_type:
  "asString (fld msg ''type'') = Some ty \<Longrightarrow>
   fld (JObj (set_field ''id'' v (fieldsOf msg))) ''type'' = JStr ty"
  by (cases msg) (auto simp: asString_def fieldsOf_def map_of_set_field split: option.splits json.splits if_splits)

text \<open>
  C1 (as amended). Let a terminal event (\<open>task_complete\<close>, \<open>turn_aborted\<close> or
  \<open>task_failed\<close>) carry the turn id \<open>t\<close>. Whenever the plan-call map holds a call id for
  \<open>t\<close>, the handler sends exactly one tool-call end for it, whose output is tagged with the
  terminal status and whose \<open>is_error\<close> is true exactly for \<open>task_failed\<close>, sends no
  tool-call begin for it, and removes \<open>t\<close> from the map. After one or more
  \<open>turn_plan_updated\<close> events of the turn and then the terminal event, the handler has
  sent one tool-call begin per \<open>turn_plan_updated\<close> event, all with the call id
  \<open>turn-plan:t\<close>, and exactly one tool-call end with that call id; with a single
  \<open>turn_plan_updated\<close> event this is exactly one begin and exactly one end.
\<close>

theorem plan_call_closed_at_turn_end:
  assumes "isTerminalOf t ty fin"
  shows "(planCallIdByTurn s t = Some c \<and> c \<noteq> [] \<longrightarrow>
           (\<exists>r rest. sentMessages (effects (handleCodexEvent render uuid useAppServer s fin))
                         = sentMessages (effects s) @ r # rest
                \<and> isToolResult c r
                \<and> fld (fld r ''output'') ''status'' = JStr ty
                \<and> fld r ''is_error'' = JBool (ty = ''task_failed'')
                \<and> filter (isToolCall c) rest = [] \<and> filter (isToolResult c) rest = [])
           \<and> planCallIdByTurn (handleCodexEvent render uuid useAppServer s fin) t = None)
       \<and> (ups \<noteq> [] \<and> planUpdatesOf t ups \<longrightarrow>
           (\<exists>new. sentMessages (effects (handleCodexEvents render uuid useAppServer s (ups @ [fin])))
                      = sentMessages (effects s) @ new
                \<and> length (filter (isToolCall (''turn-plan:'' @ t)) new) = length ups
                \<and> (\<exists>r. filter (isToolResult (''turn-plan:'' @ t)) new = [r]
                        \<and> fld (fld r ''output'') ''status'' = JStr ty
                        \<and> fld r ''is_error'' = JBool (ty = ''task_failed'')))
           \<and> planCallIdByTurn (handleCodexEvents render uuid useAppServer s (ups @ [fin])) t = None)"
proof -
  from assms have ty: "asString (fld fin ''type'') = Some ty"
    and kinds: "ty = ''task_complete'' \<or> ty = ''turn_aborted'' \<or> ty = ''task_failed''"
    by (auto simp: isTerminalOf_def isTerminal_def)
  have closing:
    "(\<exists>r rest. sentMessages (effects (handleCodexEvent render uuid useAppServer s' fin))
                         = sentMessages (effects s') @ r # rest
                \<and> isToolResult c' r
                \<and> fld (fld r ''output'') ''status'' = JStr ty
                \<and> fld r ''is_error'' = JBool (ty = ''task_failed'')
                \<and> filter (isToolCall c') rest = [] \<and> filter (isToolResult c') rest = [])
     \<and> planCallIdByTurn (handleCodexEvent render uuid useAppServer s' fin) t = None"
    if op: "planCallIdByTurn s' t = Some c'" "c' \<noteq> []" for s' c'
  proof -
    let ?r = "toolResultMessage c' (planCloseOutput ty fin) fin (ty = ''task_failed'') (uuid (uuidCount s'))"
    let ?rest = "if ty = ''task_failed''
                 then [JObj (set_field ''id'' (JStr (uuid (Suc (uuidCount s')))) (fieldsOf fin))]
                 else []"
    note step = terminal_step_sent [OF assms op, of render uuid useAppServer]
    have rest: "filter (isToolCall c') ?rest = []" "filter (isToolResult c') ?rest = []"
      using kinds passed_through_type [OF ty]
      by (auto simp add: isToolCall_def isToolResult_def simp del: fld.simps)
    have out: "isToolResult c' ?r" "fld (fld ?r ''output'') ''status'' = JStr ty"
      "fld ?r ''is_error'' = JBool (ty = ''task_failed'')"
      by (simp_all add: isToolCall_simps toolResultMessage_fields planCloseOutput_def)
    have gone: "planCallIdByTurn (handleCodexEvent render uuid useAppServer s' fin) t = None"
      using step(2) by simp
    from step(1) rest out gone show ?thesis by blast
  qed
  have trace:
    "(\<exists>new. sentMessages (effects (handleCodexEvents render uuid useAppServer s (ups @ [fin])))
                      = sentMessages (effects s) @ new
                \<and> length (filter (isToolCall (''turn-plan:'' @ t)) new) = length ups
                \<and> (\<exists>r. filter (isToolResult (''turn-plan:'' @ t)) new = [r]
                        \<and> fld (fld r ''output'') ''status'' = JStr ty
                        \<and> fld r ''is_error'' = JBool (ty = ''task_failed'')))
     \<and> planCallIdByTurn (handleCodexEvents render uuid useAppServer s (ups @ [fin])) t = None"
    if up: "ups \<noteq> []" "planUpdatesOf t ups"
  proof -
    let ?c = "''turn-plan:'' @ t"
    let ?s1 = "handleCodexEvents render uuid useAppServer s ups"
    let ?s2 = "handleCodexEvent render uuid useAppServer ?s1 fin"
    from plan_updates_run [OF up(2), of render uuid useAppServer s] up(1) obtain new where
      n: "sentMessages (effects ?s1) = sentMessages (effects s) @ new"
         "filter (isToolCall ?c) new = new"
         "filter (isToolResult ?c) new = []"
         "length new = length ups"
         "planCallIdByTurn ?s1 t = Some ?c"
      by blast
    have c: "?c \<noteq> []" by simp
    from closing [OF n(5) c] obtain r rest where
      r: "sentMessages (effects ?s2) = sentMessages (effects ?s1) @ r # rest"
         "isToolResult ?c r"
         "fld (fld r ''output'') ''status'' = JStr ty"
         "fld r ''is_error'' = JBool (ty = ''task_failed'')"
         "filter (isToolCall ?c) rest = []" "filter (isToolResult ?c) rest = []"
         "planCallIdByTurn ?s2 t = None"
      by blast
    from r(2) have nc: "\<not> isToolCall ?c r" by (auto simp: isToolCall_def isToolResult_def)
    have run: "handleCodexEvents render uuid useAppServer s (ups @ [fin]) = ?s2"
      by (simp add: handleCodexEvents_append)
    have sent: "sentMessages (effects ?s2) = sentMessages (effects s) @ (new @ r # rest)"
      using r(1) n(1) by simp
    have calls: "length (filter (isToolCall ?c) (new @ r # rest)) = length ups"
      using n(2,4) r(5) nc by simp
    have results: "filter (isToolResult ?c) (new @ r # rest) = [r]"
      using n(3) r(2,6) by simp
    from sent calls results r(3,4,7) show ?thesis
      unfolding run by blast
  qed
  from closing trace show ?thesis by blast
qed

theorem plan_call_closed_at_turn_end_witness:
  "isTerminalOf ''turn-1'' ''task_complete'' exTaskComplete
   \<and> [exPlanUpdate] \<noteq> [] \<and> planUpdatesOf ''turn-1'' [exPlanUpdate]
   \<and> (\<exists>new. sentMessages (effects (handleCodexEvents exRender exUuid True newLauncher
                                      ([exPlanUpdate] @ [exTaskComplete])))
                 = sentMessages (effects newLauncher) @ new
             \<and> length (filter (isToolCall ''turn-plan:turn-1'') new) = 1
             \<and> length (filter (isToolResult ''turn-plan:turn-1'') new) = 1)
   \<and> planCallIdByTurn (handleCodexEvents exRender exUuid True newLauncher
                          ([exPlanUpdate] @ [exTaskComplete])) ''turn-1'' = None"
proof -
  have a: "[exPlanUpdate] \<noteq> []" by simp
  have b: "planUpdatesOf ''turn-1'' [exPlanUpdate]" by code_simp
  have c: "isTerminalOf ''turn-1'' ''task_complete'' exTaskComplete" by code_simp
  from plan_call_closed_at_turn_end [OF c, of newLauncher _ exRender exUuid True "[exPlanUpdate]"] a b
  obtain new where n:
    "sentMessages (effects (handleCodexEvents exRender exUuid True newLauncher
                             ([exPlanUpdate] @ [exTaskComplete])))
       = sentMessages (effects newLauncher) @ new"
    "length (filter (isToolCall (''turn-plan:'' @ ''turn-1'')) new) = length [exPlanUpdate]"
    "\<exists>r. filter (isToolResult (''turn-plan:'' @ ''turn-1'')) new = [r]"
    "planCallIdByTurn (handleCodexEvents exRender exUuid True newLauncher
                          ([exPlanUpdate] @ [exTaskComplete])) ''turn-1'' = None"
    by blast
  from n(2) have n2: "length (filter (isToolCall ''turn-plan:turn-1'') new) = 1" by simp
  from n(3) have n3: "length (filter (isToolResult ''turn-plan:turn-1'') new) = 1" by auto
  from a b c n(1) n2 n3 n(4) show ?thesis by blast
qed

text \<open>C1 as stated fails when the plan of a turn is updated twice. Every
  \<open>turn_plan_updated\<close> event sends a tool-call under the turn's call id, which depends on
  the turn id alone, so two begins carry the call id of the one plan call; the end of the
  turn still closes it once.\<close>

theorem plan_call_two_begins:
  "length (filter (isToolCall ''turn-plan:turn-1'')
     (sentMessages (effects (handleCodexEvents exRender exUuid True newLauncher
                               [exPlanUpdate, exPlanUpdate, exTaskComplete])))) = 2
   \<and> length (filter (isToolResult ''turn-plan:turn-1'')
     (sentMessages (effects (handleCodexEvents exRender exUuid True newLauncher
                               [exPlanUpdate, exPlanUpdate, exTaskComplete])))) = 1"
  by code_simp

section \<open>Which call id a plan event uses\<close>







section \<open>The saved metadata\<close>

lemma keys_optBool_in: "k \<in> S \<Longrightarrow> fst ` set (optBool k v) \<subseteq> S"
  by (auto simp: optBool_def split: option.splits)

lemma keys_optVal_in: "k \<in> S \<Longrightarrow> fst ` set (optVal k v) \<subseteq> S"
  by (auto simp: optVal_def split: option.splits)

lemma keys_optNum_in: "k \<in> S \<Longrightarrow> fst ` set (optNum k v) \<subseteq> S"
  by (auto simp: optNum_def split: option.splits)

lemma keys_commandMetaOf:
  "fst ` set (commandMetaOf item threadId turnId)
     \<subseteq> {''command'', ''cwd'', ''auto_approved'', ''thread_id'', ''turn_id''}"
  unfolding commandMetaOf_def keys_objLit
  by (simp only: set_simps UN_insert UN_empty Un_empty_right Un_subset_iff)
     (intro conjI keys_optStr_in keys_optBool_in; simp)

lemma keys_fileChangeMetaOf:
  "fst ` set (fileChangeMetaOf item threadId turnId)
     \<subseteq> {''changes'', ''auto_approved'', ''thread_id'', ''turn_id''}"
  unfolding fileChangeMetaOf_def keys_objLit
  by (simp only: set_simps UN_insert UN_empty Un_empty_right Un_subset_iff)
     (intro conjI keys_optStr_in keys_optBool_in keys_optVal_in; simp)

lemma metaKeysOk_buffers:
  "commandMeta s' = commandMeta s \<Longrightarrow> fileChangeMeta s' = fileChangeMeta s \<Longrightarrow>
   metaKeysOk s \<Longrightarrow> metaKeysOk s'"
  by (simp add: metaKeysOk_def)

lemma meta_unchanged_deltas:
  "commandMeta (snd (onAgentMessageDelta s pr)) = commandMeta s"
  "fileChangeMeta (snd (onAgentMessageDelta s pr)) = fileChangeMeta s"
  "commandMeta (snd (onPlanDelta s pr)) = commandMeta s"
  "fileChangeMeta (snd (onPlanDelta s pr)) = fileChangeMeta s"
  "commandMeta (snd (onReasoningDelta s m pr)) = commandMeta s"
  "fileChangeMeta (snd (onReasoningDelta s m pr)) = fileChangeMeta s"
  "commandMeta (snd (onCommandOutputDelta render s pr)) = commandMeta s"
  "fileChangeMeta (snd (onCommandOutputDelta render s pr)) = fileChangeMeta s"
  "commandMeta (snd (onFileChangeOutputDelta render s pr)) = commandMeta s"
  "fileChangeMeta (snd (onFileChangeOutputDelta render s pr)) = fileChangeMeta s"
  by (simp_all add: onAgentMessageDelta_def onPlanDelta_def onReasoningDelta_def
        onCommandOutputDelta_def onFileChangeOutputDelta_def Let_def
        split: option.splits del: coalesce.simps)

lemma meta_unchanged_items:
  "commandMeta (snd (onAgentMessageItem s m pr item i)) = commandMeta s"
  "fileChangeMeta (snd (onAgentMessageItem s m pr item i)) = fileChangeMeta s"
  "commandMeta (snd (onReasoningItem s m pr item i)) = commandMeta s"
  "fileChangeMeta (snd (onReasoningItem s m pr item i)) = fileChangeMeta s"
  "commandMeta (snd (onPlanItem s m pr item i)) = commandMeta s"
  "fileChangeMeta (snd (onPlanItem s m pr item i)) = fileChangeMeta s"
  by (simp_all add: onAgentMessageItem_def onReasoningItem_def onPlanItem_def Let_def
        split: option.splits del: coalesce.simps)

lemma metaKeysOk_command:
  "metaKeysOk s \<Longrightarrow> metaKeysOk (snd (onCommandExecutionItem render s m pr item i))"
  using keys_commandMetaOf
  by (auto simp add: onCommandExecutionItem_def Let_def metaKeysOk_def simp del: coalesce.simps)

lemma metaKeysOk_fileChange:
  "metaKeysOk s \<Longrightarrow> metaKeysOk (snd (onFileChangeItem render s m pr item i))"
  using keys_fileChangeMetaOf
  by (auto simp add: onFileChangeItem_def Let_def metaKeysOk_def simp del: coalesce.simps)

lemma metaKeysOk_item: "metaKeysOk s \<Longrightarrow> metaKeysOk (snd (onItem render s m pr))"
  by (auto simp add: onItem_def Let_def metaKeysOk_command metaKeysOk_fileChange
        metaKeysOk_buffers [OF meta_unchanged_items(1,2)]
        metaKeysOk_buffers [OF meta_unchanged_items(3,4)]
        metaKeysOk_buffers [OF meta_unchanged_items(5,6)]
        split: option.splits)

lemma metaKeysOk_step: "metaKeysOk s \<Longrightarrow> metaKeysOk (snd (handleNotification render s m p))"
  by (simp add: handleNotification_def Let_def metaKeysOk_item
        metaKeysOk_buffers [OF meta_unchanged_deltas(1,2)]
        metaKeysOk_buffers [OF meta_unchanged_deltas(3,4)]
        metaKeysOk_buffers [OF meta_unchanged_deltas(5,6)]
        metaKeysOk_buffers [OF meta_unchanged_deltas(7,8)]
        metaKeysOk_buffers [OF meta_unchanged_deltas(9,10)])

lemma metaKeysOk_new: "metaKeysOk newConverter"
  by (simp add: metaKeysOk_def newConverter_def)

lemma reachable_metaKeysOk: "reachable render s \<Longrightarrow> metaKeysOk s"
proof (induction rule: reachable.induct)
  case reachable_new
  show ?case by (rule metaKeysOk_new)
next
  case (reachable_step s m p)
  then show ?case by (simp add: metaKeysOk_step)
next
  case (reachable_reset s)
  show ?case by (simp add: reset_new metaKeysOk_new)
qed

section \<open>Item events carry the item id\<close>

lemma map_of_objLit_head:
  "\<forall>p\<in>set parts. k \<notin> fst ` set p \<Longrightarrow> map_of (objLit (h0 # parts)) k = map_of (spread [] h0) k"
  by (simp add: objLit_def map_of_foldl_spread_other)

lemma not_key_optStr: "k \<noteq> k' \<Longrightarrow> k \<notin> fst ` set (optStr k' v)"
  using keys_optStr [of k' v] by blast

lemma not_key_optNum: "k \<noteq> k' \<Longrightarrow> k \<notin> fst ` set (optNum k' v)"
  by (auto simp: optNum_def split: option.splits)

lemma not_key_resultFields:
  "k \<noteq> ''output'' \<Longrightarrow> k \<noteq> ''error'' \<Longrightarrow> k \<notin> fst ` set (resultFields item)"
  by (simp add: resultFields_def)

lemma map_of_addStableFields_item_id:
  "i \<noteq> [] \<Longrightarrow> map_of (addStableFields target pr item (Some i)) ''item_id'' = Some (JStr i)"
  by (simp add: addStableFields_def map_of_setIfString nonEmpty_def)

text \<open>An event built from a head that names the item id as call id (or names no call id),
  from parts that name neither, and from the stable fields.\<close>

lemma built_event_correlated:
  assumes "i \<noteq> []"
    and "\<forall>p\<in>set parts. ''call_id'' \<notin> fst ` set p \<and> ''callId'' \<notin> fst ` set p"
    and "map_of (spread [] h0) ''callId'' = None"
    and "map_of (spread [] h0) ''call_id'' = Some (JStr i) \<or> map_of (spread [] h0) ''call_id'' = None"
  shows "correlated i (JObj (addStableFields (objLit (h0 # parts)) pr item (Some i)))"
proof -
  have a: "map_of (objLit (h0 # parts)) ''call_id'' = map_of (spread [] h0) ''call_id''"
    using assms(2) by (intro map_of_objLit_head) blast
  have b: "map_of (objLit (h0 # parts)) ''callId'' = map_of (spread [] h0) ''callId''"
    using assms(2) by (intro map_of_objLit_head) blast
  show ?thesis
    using assms(1,3,4)
    by (auto simp add: correlated_def map_of_addStableFields_item_id map_of_addStableFields_other a b)
qed

lemma item_parts:
  "''call_id'' \<notin> fst ` set (optStr ''status'' v) \<and> ''callId'' \<notin> fst ` set (optStr ''status'' v)"
  "''call_id'' \<notin> fst ` set (optStr ''text'' v) \<and> ''callId'' \<notin> fst ` set (optStr ''text'' v)"
  "''call_id'' \<notin> fst ` set (optStr ''output'' v) \<and> ''callId'' \<notin> fst ` set (optStr ''output'' v)"
  "''call_id'' \<notin> fst ` set (optStr ''stdout'' v) \<and> ''callId'' \<notin> fst ` set (optStr ''stdout'' v)"
  "''call_id'' \<notin> fst ` set (optStr ''stderr'' v) \<and> ''callId'' \<notin> fst ` set (optStr ''stderr'' v)"
  "''call_id'' \<notin> fst ` set (optStr ''error'' v) \<and> ''callId'' \<notin> fst ` set (optStr ''error'' v)"
  "''call_id'' \<notin> fst ` set (optNum ''exit_code'' n) \<and> ''callId'' \<notin> fst ` set (optNum ''exit_code'' n)"
  "''call_id'' \<notin> fst ` set (resultFields item) \<and> ''callId'' \<notin> fst ` set (resultFields item)"
  "''call_id'' \<notin> fst ` set [(''success'', b)] \<and> ''callId'' \<notin> fst ` set [(''success'', b)]"
  by (simp_all add: not_key_optStr not_key_optNum not_key_resultFields)

lemma command_meta_parts:
  assumes "metaKeysOk s"
  shows "''call_id'' \<notin> fst ` set (orDefault (commandMeta s i) [])
       \<and> ''callId'' \<notin> fst ` set (orDefault (commandMeta s i) [])"
    and "''call_id'' \<notin> fst ` set (orDefault (fileChangeMeta s i) [])
       \<and> ''callId'' \<notin> fst ` set (orDefault (fileChangeMeta s i) [])"
proof -
  show "''call_id'' \<notin> fst ` set (orDefault (commandMeta s i) [])
       \<and> ''callId'' \<notin> fst ` set (orDefault (commandMeta s i) [])"
  proof (cases "commandMeta s i")
    case None
    then show ?thesis by (simp add: orDefault_def)
  next
    case (Some m)
    with assms have "fst ` set m \<subseteq> {''command'', ''cwd'', ''auto_approved'', ''thread_id'', ''turn_id''}"
      by (simp add: metaKeysOk_def)
    then have "''call_id'' \<notin> fst ` set m \<and> ''callId'' \<notin> fst ` set m" by auto
    with Some show ?thesis by (simp add: orDefault_def)
  qed
  show "''call_id'' \<notin> fst ` set (orDefault (fileChangeMeta s i) [])
       \<and> ''callId'' \<notin> fst ` set (orDefault (fileChangeMeta s i) [])"
  proof (cases "fileChangeMeta s i")
    case None
    then show ?thesis by (simp add: orDefault_def)
  next
    case (Some m)
    with assms have "fst ` set m \<subseteq> {''changes'', ''auto_approved'', ''thread_id'', ''turn_id''}"
      by (simp add: metaKeysOk_def)
    then have "''call_id'' \<notin> fst ` set m \<and> ''callId'' \<notin> fst ` set m" by auto
    with Some show ?thesis by (simp add: orDefault_def)
  qed
qed

lemma new_meta_parts:
  "''call_id'' \<notin> fst ` set (commandMetaOf item th tu) \<and> ''callId'' \<notin> fst ` set (commandMetaOf item th tu)"
  "''call_id'' \<notin> fst ` set (fileChangeMetaOf item th tu) \<and> ''callId'' \<notin> fst ` set (fileChangeMetaOf item th tu)"
  using keys_commandMetaOf [of item th tu] keys_fileChangeMetaOf [of item th tu] by auto

lemmas correlated_intro = built_event_correlated item_parts new_meta_parts map_of_set_field

lemma correlated_message: "i \<noteq> [] \<Longrightarrow> allCorrelated i (fst (onAgentMessageItem s m pr item i))"
  by (simp add: onAgentMessageItem_def correlated_intro split: option.splits del: coalesce.simps)

lemma correlated_reasoning: "i \<noteq> [] \<Longrightarrow> allCorrelated i (fst (onReasoningItem s m pr item i))"
  by (simp add: onReasoningItem_def correlated_intro split: option.splits del: coalesce.simps)

lemma correlated_plan: "i \<noteq> [] \<Longrightarrow> allCorrelated i (fst (onPlanItem s m pr item i))"
  by (simp add: onPlanItem_def Let_def correlated_intro split: option.splits del: coalesce.simps)

lemma correlated_command:
  "i \<noteq> [] \<Longrightarrow> metaKeysOk s \<Longrightarrow> allCorrelated i (fst (onCommandExecutionItem render s m pr item i))"
  by (simp add: onCommandExecutionItem_def commandEndEvent_def Let_def correlated_intro
        command_meta_parts del: coalesce.simps)

lemma correlated_fileChange:
  "i \<noteq> [] \<Longrightarrow> metaKeysOk s \<Longrightarrow> allCorrelated i (fst (onFileChangeItem render s m pr item i))"
  by (simp add: onFileChangeItem_def patchEndEvent_def Let_def correlated_intro
        command_meta_parts del: coalesce.simps)

lemma correlated_others:
  "i \<noteq> [] \<Longrightarrow> allCorrelated i (onMcpToolCallItem m pr item i)"
  "i \<noteq> [] \<Longrightarrow> allCorrelated i (onCollabToolCallItem m pr item i)"
  "i \<noteq> [] \<Longrightarrow> allCorrelated i (onWebSearchItem m pr item i)"
  "i \<noteq> [] \<Longrightarrow> allCorrelated i (onImageViewItem m pr item i)"
  "i \<noteq> [] \<Longrightarrow> allCorrelated i (onReviewModeItem ty pr item i)"
  "i \<noteq> [] \<Longrightarrow> allCorrelated i (onContextCompactionItem m pr item i)"
  by (simp_all add: onMcpToolCallItem_def onCollabToolCallItem_def onWebSearchItem_def
        onImageViewItem_def onReviewModeItem_def onContextCompactionItem_def Let_def
        correlated_intro del: coalesce.simps)

lemma itemIdOf_nonempty: "itemIdOf pr item = Some i \<Longrightarrow> i \<noteq> []"
  by (auto simp: itemIdOf_def orElse_def extractItemId_def asString_def
           split: option.splits json.splits if_splits)

lemma correlated_item:
  assumes "metaKeysOk s" and "itemIdOf pr (extractItem pr) = Some i"
  shows "allCorrelated i (fst (onItem render s m pr))"
proof -
  from assms(2) have i: "i \<noteq> []" by (rule itemIdOf_nonempty)
  show ?thesis
    using assms i
    by (simp add: onItem_def Let_def correlated_message correlated_reasoning correlated_plan
          correlated_command correlated_fileChange correlated_others split: option.splits)
qed

lemma no_id_no_events:
  "itemIdOf pr (extractItem pr) = None \<Longrightarrow> fst (onItem render s m pr) = []"
  by (simp add: onItem_def Let_def split: option.splits)

lemma allCorrelated_member: "allCorrelated i es \<Longrightarrow> e \<in> set es \<Longrightarrow> correlated i e"
  by (induction es) auto

lemma correlated_callId:
  "correlated i e \<Longrightarrow> extractCallId uuid e prefix l = (i, l)"
  by (auto simp: correlated_def extractCallId_def asString_def nullish_def)

section \<open>Begin and end events become correlated tool calls\<close>

lemmas handler_parts = handleCodexEvent_def trackTurn_def isTerminal_def displayEvent_def
  beginTurn_def endTurn_def forwardReasoning_def forwardAgentMessage_def planEvents_def
  toolEvents_def

lemma begin_event_sends_call:
  assumes "eventTypeIn beginEventTypes e" and "correlated c e"
  shows "\<exists>m. sentMessages (effects (handleCodexEvent render uuid useAppServer l e))
               = sentMessages (effects l) @ [m] \<and> isToolCall c m"
proof -
  from assms(1) obtain ty where ty: "asString (fld e ''type'') = Some ty" "ty \<in> set beginEventTypes"
    by (auto simp: eventTypeIn_def split: option.splits)
  note id = correlated_callId [OF assms(2)]
  from ty(2) show ?thesis
    unfolding beginEventTypes_def set_simps insert_iff empty_iff
    using ty(1)
    by (elim disjE FalseE)
       (simp_all add: handler_parts beginCall_def onPlanItemStartedEvent_def id emitToolCall_eq
          perform_def sentMessages_append isToolCall_simps Let_def del: coalesce.simps)
qed

lemma end_event_sends_result:
  assumes "eventTypeIn endEventTypes e" and "correlated c e"
  shows "\<exists>m. sentMessages (effects (handleCodexEvent render uuid useAppServer l e))
               = sentMessages (effects l) @ [m] \<and> isToolResult c m"
proof -
  from assms(1) obtain ty where ty: "asString (fld e ''type'') = Some ty" "ty \<in> set endEventTypes"
    by (auto simp: eventTypeIn_def split: option.splits)
  note id = correlated_callId [OF assms(2)]
  from ty(2) show ?thesis
    unfolding endEventTypes_def set_simps insert_iff empty_iff
    using ty(1)
    by (elim disjE FalseE)
       (simp_all add: handler_parts endCall_def onPlanItemCompletedEvent_def id emitToolResult_eq
          perform_def sentMessages_append isToolCall_simps Let_def del: coalesce.simps)
qed

lemma item_events_correlated:
  assumes "reachable render s" and "m = ''item/started'' \<or> m = ''item/completed''"
    and "e \<in> set (fst (handleNotification render s m p))"
  shows "\<exists>i. correlated i e"
proof (cases "itemIdOf (paramsOf p) (extractItem (paramsOf p))")
  case None
  with assms(2,3) show ?thesis
    using no_id_no_events [of "paramsOf p" render s m]
    by (auto simp: handleNotification_def paramsOf_def)
next
  case (Some i)
  from assms(1) have "metaKeysOk s" by (rule reachable_metaKeysOk)
  from correlated_item [OF this Some, of render m] assms(2,3)
  have "correlated i e"
    by (auto simp: handleNotification_def paramsOf_def intro: allCorrelated_member)
  then show ?thesis ..
qed

text \<open>
  C6. Take two events that reachable converters emit for item notifications
  (\<^verbatim>\<open>item/started\<close> or \<^verbatim>\<open>item/completed\<close>), say for the start and for the completion of
  an item, with the same item id. The handler derives the same call id for both, the item id,
  and draws no fresh id for either. When the first is a begin event and the second an end
  event of the tool-call families (exec_command, patch_apply, mcp_tool_call, collab_tool_call,
  web_search, image_view, review_mode, context_compaction, plan_item), the handler sends
  exactly one tool-call for the first and exactly one tool-call-result for the second, both
  with that call id.
\<close>

theorem call_id_correlation:
  assumes "reachable render s1" and "reachable render s2"
    and "m1 = ''item/started'' \<or> m1 = ''item/completed''"
    and "m2 = ''item/started'' \<or> m2 = ''item/completed''"
    and "e1 \<in> set (fst (handleNotification render s1 m1 p1))"
    and "e2 \<in> set (fst (handleNotification render s2 m2 p2))"
    and "fld e1 ''item_id'' = fld e2 ''item_id''"
  shows "\<exists>c. fld e1 ''item_id'' = JStr c
           \<and> extractCallId uuid e1 prefix1 l1 = (c, l1)
           \<and> extractCallId uuid e2 prefix2 l2 = (c, l2)
           \<and> (eventTypeIn beginEventTypes e1 \<longrightarrow>
                (\<exists>m. sentMessages (effects (handleCodexEvent render uuid useAppServer l1 e1))
                        = sentMessages (effects l1) @ [m] \<and> isToolCall c m))
           \<and> (eventTypeIn endEventTypes e2 \<longrightarrow>
                (\<exists>m. sentMessages (effects (handleCodexEvent render uuid useAppServer l2 e2))
                        = sentMessages (effects l2) @ [m] \<and> isToolResult c m))"
proof -
  from item_events_correlated [OF assms(1) assms(3) assms(5)] obtain c
    where c1: "correlated c e1" by blast
  from item_events_correlated [OF assms(2) assms(4) assms(6)] obtain c'
    where c2: "correlated c' e2" by blast
  from c1 c2 assms(7) have "c' = c" by (simp add: correlated_def)
  with c2 have c2: "correlated c e2" by simp
  from c1 have "fld e1 ''item_id'' = JStr c" by (simp add: correlated_def)
  moreover note correlated_callId [OF c1, of uuid prefix1 l1] correlated_callId [OF c2, of uuid prefix2 l2]
  moreover note begin_event_sends_call [OF _ c1, of render uuid useAppServer l1]
    end_event_sends_result [OF _ c2, of render uuid useAppServer l2]
  ultimately show ?thesis by blast
qed

theorem call_id_correlation_witness:
  "reachable exRender newConverter \<and> reachable exRender exStartedConverter
   \<and> exBeginEvent \<in> set (fst (handleNotification exRender newConverter ''item/started'' exCommandStarted))
   \<and> exEndEvent \<in> set (fst (handleNotification exRender exStartedConverter ''item/completed''
                                 exCommandCompleted))
   \<and> fld exBeginEvent ''item_id'' = fld exEndEvent ''item_id''
   \<and> extractCallId exUuid exBeginEvent ''exec'' newLauncher = (''cmd-1'', newLauncher)
   \<and> extractCallId exUuid exEndEvent ''exec'' newLauncher = (''cmd-1'', newLauncher)
   \<and> (\<exists>m. sentMessages (effects (handleCodexEvent exRender exUuid True newLauncher exBeginEvent)) = [m]
           \<and> isToolCall ''cmd-1'' m)
   \<and> (\<exists>m. sentMessages (effects (handleCodexEvent exRender exUuid True newLauncher exEndEvent)) = [m]
           \<and> isToolResult ''cmd-1'' m)"
proof -
  have r1: "reachable exRender newConverter" by (rule reachable_new)
  have r2: "reachable exRender exStartedConverter"
    unfolding exStartedConverter_def by (rule reachable_step [OF r1])
  have b: "fst (handleNotification exRender newConverter ''item/started'' exCommandStarted) = [exBeginEvent]"
    by code_simp
  have e: "fst (handleNotification exRender exStartedConverter ''item/completed'' exCommandCompleted)
             = [exEndEvent]"
    by code_simp
  have m1: "exBeginEvent \<in> set (fst (handleNotification exRender newConverter ''item/started''
                                      exCommandStarted))"
    by (simp add: b)
  have m2: "exEndEvent \<in> set (fst (handleNotification exRender exStartedConverter ''item/completed''
                                    exCommandCompleted))"
    by (simp add: e)
  have same: "fld exBeginEvent ''item_id'' = fld exEndEvent ''item_id''" by code_simp
  have i: "fld exBeginEvent ''item_id'' = JStr ''cmd-1''" by code_simp
  have tb: "eventTypeIn beginEventTypes exBeginEvent" by code_simp
  have te: "eventTypeIn endEventTypes exEndEvent" by code_simp
  have n: "effects newLauncher = []" by (simp add: newLauncher_def)
  from call_id_correlation [OF r1 r2 _ _ m1 m2 same,
         of exUuid "''exec''" newLauncher "''exec''" newLauncher True]
    i tb te
  have "extractCallId exUuid exBeginEvent ''exec'' newLauncher = (''cmd-1'', newLauncher)
      \<and> extractCallId exUuid exEndEvent ''exec'' newLauncher = (''cmd-1'', newLauncher)
      \<and> (\<exists>m. sentMessages (effects (handleCodexEvent exRender exUuid True newLauncher exBeginEvent))
                 = sentMessages (effects newLauncher) @ [m] \<and> isToolCall ''cmd-1'' m)
      \<and> (\<exists>m. sentMessages (effects (handleCodexEvent exRender exUuid True newLauncher exEndEvent))
                 = sentMessages (effects newLauncher) @ [m] \<and> isToolResult ''cmd-1'' m)"
    by auto
  with n r1 r2 m1 m2 same show ?thesis by simp
qed

section \<open>Completion of an item that was never started\<close>

lemma not_type_parts:
  "''type'' \<notin> fst ` set (optStr ''status'' v)"
  "''type'' \<notin> fst ` set (optStr ''text'' v)"
  "''type'' \<notin> fst ` set (optStr ''output'' v)"
  "''type'' \<notin> fst ` set (optStr ''stdout'' v)"
  "''type'' \<notin> fst ` set (optStr ''stderr'' v)"
  "''type'' \<notin> fst ` set (optStr ''error'' v)"
  "''type'' \<notin> fst ` set (optNum ''exit_code'' n)"
  "''type'' \<notin> fst ` set (resultFields item)"
  "''type'' \<notin> fst ` set [(''success'', b)]"
  by (simp_all add: not_key_optStr not_key_optNum not_key_resultFields)

lemma not_type_meta:
  assumes "metaKeysOk s"
  shows "''type'' \<notin> fst ` set (orDefault (commandMeta s i) [])"
    and "''type'' \<notin> fst ` set (orDefault (fileChangeMeta s i) [])"
proof -
  show "''type'' \<notin> fst ` set (orDefault (commandMeta s i) [])"
  proof (cases "commandMeta s i")
    case None
    then show ?thesis by (simp add: orDefault_def)
  next
    case (Some m)
    with assms have "fst ` set m \<subseteq> {''command'', ''cwd'', ''auto_approved'', ''thread_id'', ''turn_id''}"
      by (simp add: metaKeysOk_def)
    then have "''type'' \<notin> fst ` set m" by auto
    with Some show ?thesis by (simp add: orDefault_def)
  qed
  show "''type'' \<notin> fst ` set (orDefault (fileChangeMeta s i) [])"
  proof (cases "fileChangeMeta s i")
    case None
    then show ?thesis by (simp add: orDefault_def)
  next
    case (Some m)
    with assms have "fst ` set m \<subseteq> {''changes'', ''auto_approved'', ''thread_id'', ''turn_id''}"
      by (simp add: metaKeysOk_def)
    then have "''type'' \<notin> fst ` set m" by auto
    with Some show ?thesis by (simp add: orDefault_def)
  qed
qed

lemma built_event_one:
  assumes "i \<noteq> []" and "\<forall>p\<in>set parts. ''type'' \<notin> fst ` set p"
    and "map_of (spread [] h0) ''type'' = Some (JStr ty)"
  shows "oneEvent ty i [JObj (addStableFields (objLit (h0 # parts)) pr item (Some i))]"
  using assms
  by (simp add: oneEvent_def map_of_addStableFields_item_id map_of_addStableFields_other
        map_of_objLit_head)

lemmas one_intro = built_event_one not_type_parts map_of_set_field

lemma one_plan: "i \<noteq> [] \<Longrightarrow> oneEvent ''plan_item_completed'' i (fst (onPlanItem s ''item/completed'' pr item i))"
  by (simp add: onPlanItem_def Let_def one_intro del: coalesce.simps)

lemma one_command:
  "i \<noteq> [] \<Longrightarrow> metaKeysOk s \<Longrightarrow>
   oneEvent ''exec_command_end'' i (fst (onCommandExecutionItem render s ''item/completed'' pr item i))"
  by (simp add: onCommandExecutionItem_def commandEndEvent_def Let_def one_intro not_type_meta
        del: coalesce.simps)

lemma one_fileChange:
  "i \<noteq> [] \<Longrightarrow> metaKeysOk s \<Longrightarrow>
   oneEvent ''patch_apply_end'' i (fst (onFileChangeItem render s ''item/completed'' pr item i))"
  by (simp add: onFileChangeItem_def patchEndEvent_def Let_def one_intro not_type_meta
        del: coalesce.simps)

lemma one_others:
  "i \<noteq> [] \<Longrightarrow> oneEvent ''mcp_tool_call_end'' i (onMcpToolCallItem ''item/completed'' pr item i)"
  "i \<noteq> [] \<Longrightarrow> oneEvent ''collab_tool_call_end'' i (onCollabToolCallItem ''item/completed'' pr item i)"
  "i \<noteq> [] \<Longrightarrow> oneEvent ''web_search_end'' i (onWebSearchItem ''item/completed'' pr item i)"
  "i \<noteq> [] \<Longrightarrow> oneEvent ''image_view_end'' i (onImageViewItem ''item/completed'' pr item i)"
  "i \<noteq> [] \<Longrightarrow> oneEvent ty i (onReviewModeItem ty pr item i)"
  "i \<noteq> [] \<Longrightarrow> oneEvent ''context_compaction_completed'' i
                  (onContextCompactionItem ''item/completed'' pr item i)"
  by (simp_all add: onMcpToolCallItem_def onCollabToolCallItem_def onWebSearchItem_def
        onImageViewItem_def onReviewModeItem_def onContextCompactionItem_def Let_def
        one_intro del: coalesce.simps)

lemma one_always:
  assumes "metaKeysOk s" and "itemTypeOf (extractItem pr) = Some T"
    and "itemIdOf pr (extractItem pr) = Some i" and "T \<in> set alwaysCompletedTypes"
  shows "oneEvent (completedEventTypeSpec T) i (fst (onItem render s ''item/completed'' pr))"
proof -
  from assms(3) have i: "i \<noteq> []" by (rule itemIdOf_nonempty)
  from assms(4) show ?thesis
    unfolding alwaysCompletedTypes_def set_simps insert_iff empty_iff
    using assms(1,2,3) i
    by (elim disjE FalseE)
       (simp_all add: onItem_def Let_def nonEmpty_def completedEventTypeSpec_def
          one_plan one_command one_fileChange one_others)
qed

lemma text_message:
  assumes "i \<noteq> []"
  shows "case availableText s ''agentmessage'' item i of
           None \<Rightarrow> fst (onAgentMessageItem s ''item/completed'' pr item i) = []
         | Some t \<Rightarrow> (\<exists>e. fst (onAgentMessageItem s ''item/completed'' pr item i) = [e]
                        \<and> fld e ''type'' = JStr ''agent_message'' \<and> fld e ''item_id'' = JStr i
                        \<and> fld e ''message'' = JStr t)"
  using assms
  by (simp add: availableText_def onAgentMessageItem_def map_of_addStableFields_item_id
        map_of_addStableFields_other map_of_objLit_head not_key_optStr map_of_set_field
        split: option.splits del: coalesce.simps)

lemma text_reasoning:
  assumes "i \<noteq> []"
  shows "case availableText s ''reasoning'' item i of
           None \<Rightarrow> fst (onReasoningItem s ''item/completed'' pr item i) = []
         | Some t \<Rightarrow> (\<exists>e. fst (onReasoningItem s ''item/completed'' pr item i) = [e]
                        \<and> fld e ''type'' = JStr ''agent_reasoning'' \<and> fld e ''item_id'' = JStr i
                        \<and> fld e ''text'' = JStr t)"
  using assms
  by (simp add: availableText_def onReasoningItem_def map_of_addStableFields_item_id
        map_of_addStableFields_other map_of_objLit_head not_key_optStr map_of_set_field
        split: option.splits del: coalesce.simps)

lemma nothing_held_item:
  assumes "holdsNothingFor s i"
  shows "onAgentMessageItem s ''item/completed'' pr item i
           = (fst (onAgentMessageItem newConverter ''item/completed'' pr item i), s)"
    and "onReasoningItem s ''item/completed'' pr item i
           = (fst (onReasoningItem newConverter ''item/completed'' pr item i), s)"
    and "onPlanItem s ''item/completed'' pr item i
           = (fst (onPlanItem newConverter ''item/completed'' pr item i), s)"
    and "onCommandExecutionItem render s ''item/completed'' pr item i
           = (fst (onCommandExecutionItem render newConverter ''item/completed'' pr item i), s)"
    and "onFileChangeItem render s ''item/completed'' pr item i
           = (fst (onFileChangeItem render newConverter ''item/completed'' pr item i), s)"
  using assms
  by (simp_all add: holdsNothingFor_def onAgentMessageItem_def onReasoningItem_def onPlanItem_def
        onCommandExecutionItem_def onFileChangeItem_def newConverter_def Let_def fun_upd_idem
        del: coalesce.simps)

lemma nothing_held:
  assumes "holdsNothingFor s i" and "itemIdOf pr (extractItem pr) = Some i"
  shows "onItem render s ''item/completed'' pr = (fst (onItem render newConverter ''item/completed'' pr), s)"
  using assms(2)
  by (simp add: onItem_def Let_def nothing_held_item [OF assms(1)] split: option.splits)

text \<open>
  C7 (as amended). For an \<^verbatim>\<open>item/completed\<close> notification with a recognized item type and
  an item id, handled by a reachable converter whether or not the item was started:
  for plan, commandExecution, fileChange, mcpToolCall, collabToolCall, webSearch, imageView,
  review-mode and contextCompaction items it yields exactly one event, of the type that
  belongs to the item type and with the item id; for agentMessage and reasoning items it
  yields that one event, carrying the text, exactly when a non-empty text is available (on
  the completion or buffered from deltas) and no event otherwise. When the converter holds
  nothing for the item id (a missing metadata entry counts as an empty record), the events
  are those of a new converter, built from the completion payload alone, and the converter
  is unchanged. The handler has no operation that throws on these values (it reads
  properties of records only, through \<^verbatim>\<open>?.\<close> where a record may be null, and
  \<^verbatim>\<open>JSON.stringify\<close> is guarded), so the call returns in every case.
\<close>

theorem completion_without_start:
  assumes "reachable render s"
    and "itemTypeOf (itemOf params) = Some T"
    and "itemIdOf (paramsOf params) (itemOf params) = Some i"
  shows "(T \<in> set alwaysCompletedTypes \<longrightarrow>
            oneEvent (completedEventTypeSpec T) i (fst (handleNotification render s ''item/completed'' params)))
       \<and> (T = ''agentmessage'' \<or> T = ''reasoning'' \<longrightarrow>
            (case availableText s T (itemOf params) i of
               None \<Rightarrow> fst (handleNotification render s ''item/completed'' params) = []
             | Some t \<Rightarrow>
                 (\<exists>e. fst (handleNotification render s ''item/completed'' params) = [e]
                     \<and> fld e ''type'' = JStr (completedEventTypeSpec T) \<and> fld e ''item_id'' = JStr i
                     \<and> fld e (textField T) = JStr t)))
       \<and> (holdsNothingFor s i \<longrightarrow>
            handleNotification render s ''item/completed'' params
              = (fst (handleNotification render newConverter ''item/completed'' params), s))"
proof -
  let ?pr = "paramsOf params"
  have h: "handleNotification render c ''item/completed'' params = onItem render c ''item/completed'' ?pr"
    for c
    by (simp add: handleNotification_def paramsOf_def)
  from assms(2,3) have ty: "itemTypeOf (extractItem ?pr) = Some T"
    and id: "itemIdOf ?pr (extractItem ?pr) = Some i"
    by (simp_all add: itemOf_def)
  from id have i: "i \<noteq> []" by (rule itemIdOf_nonempty)
  from assms(1) have ok: "metaKeysOk s" by (rule reachable_metaKeysOk)
  have always: "oneEvent (completedEventTypeSpec T) i (fst (handleNotification render s ''item/completed'' params))"
    if "T \<in> set alwaysCompletedTypes"
    unfolding h by (rule one_always [OF ok ty id that])
  have msg: "case availableText s T (itemOf params) i of
               None \<Rightarrow> fst (handleNotification render s ''item/completed'' params) = []
             | Some t \<Rightarrow>
                 (\<exists>e. fst (handleNotification render s ''item/completed'' params) = [e]
                     \<and> fld e ''type'' = JStr (completedEventTypeSpec T) \<and> fld e ''item_id'' = JStr i
                     \<and> fld e (textField T) = JStr t)"
    if "T = ''agentmessage'' \<or> T = ''reasoning''"
    using that
  proof
    assume T: "T = ''agentmessage''"
    have "onItem render s ''item/completed'' ?pr
            = onAgentMessageItem s ''item/completed'' ?pr (extractItem ?pr) i"
      using ty id by (simp add: onItem_def Let_def nonEmpty_def T)
    with text_message [OF i, where s = s and item = "extractItem ?pr" and pr = ?pr] show ?thesis
      by (simp add: h T completedEventTypeSpec_def textField_def itemOf_def split: option.splits)
  next
    assume T: "T = ''reasoning''"
    have "onItem render s ''item/completed'' ?pr
            = onReasoningItem s ''item/completed'' ?pr (extractItem ?pr) i"
      using ty id by (simp add: onItem_def Let_def nonEmpty_def T)
    with text_reasoning [OF i, where s = s and item = "extractItem ?pr" and pr = ?pr] show ?thesis
      by (simp add: h T completedEventTypeSpec_def textField_def itemOf_def split: option.splits)
  qed
  have fresh: "handleNotification render s ''item/completed'' params
              = (fst (handleNotification render newConverter ''item/completed'' params), s)"
    if "holdsNothingFor s i"
    unfolding h by (rule nothing_held [OF that id])
  from always msg fresh show ?thesis by blast
qed

theorem completion_without_start_witness:
  "reachable exRender newConverter
   \<and> itemTypeOf (itemOf exCommandCompleted) = Some ''commandexecution''
   \<and> itemIdOf (paramsOf exCommandCompleted) (itemOf exCommandCompleted) = Some ''cmd-1''
   \<and> ''commandexecution'' \<in> set alwaysCompletedTypes
   \<and> oneEvent ''exec_command_end'' ''cmd-1''
        (fst (handleNotification exRender newConverter ''item/completed'' exCommandCompleted))"
proof -
  have r: "reachable exRender newConverter" by (rule reachable_new)
  have t: "itemTypeOf (itemOf exCommandCompleted) = Some ''commandexecution''" by code_simp
  have i: "itemIdOf (paramsOf exCommandCompleted) (itemOf exCommandCompleted) = Some ''cmd-1''"
    by code_simp
  have a: "''commandexecution'' \<in> set alwaysCompletedTypes" by (simp add: alwaysCompletedTypes_def)
  have c: "completedEventTypeSpec ''commandexecution'' = ''exec_command_end''"
    by (simp add: completedEventTypeSpec_def)
  from completion_without_start [OF r t i] a c
  have "oneEvent ''exec_command_end'' ''cmd-1''
        (fst (handleNotification exRender newConverter ''item/completed'' exCommandCompleted))"
    by simp
  with r t i a show ?thesis by blast
qed

text \<open>C7 as stated fails for a message item that is completed without any text: the
  item type is recognized and the item has an id, and no event is yielded, because the
  handlers of message and reasoning items emit their event only under \<^verbatim>\<open>if (text)\<close>.\<close>

theorem message_without_text_yields_nothing:
  "itemTypeOf (itemOf (messageCompleted ''msg-1'')) = Some ''agentmessage''
   \<and> itemIdOf (paramsOf (messageCompleted ''msg-1'')) (itemOf (messageCompleted ''msg-1'')) = Some ''msg-1''
   \<and> handleNotification exRender newConverter ''item/completed'' (messageCompleted ''msg-1'')
        = ([], newConverter)"
proof -
  have "fst (handleNotification exRender newConverter ''item/completed'' (messageCompleted ''msg-1'')) = []"
    by code_simp
  moreover have "snd (handleNotification exRender newConverter ''item/completed'' (messageCompleted ''msg-1''))
                   = newConverter"
    by (simp add: handleNotification_def messageCompleted_def recordOr_def asRecord_def onItem_def
          extractItem_def itemTypeOf_def itemIdOf_def extractItemId_def asString_def orElse_def
          nonEmpty_def normalize_agentMessage onAgentMessageItem_def newConverter_def Let_def)
  moreover have "itemTypeOf (itemOf (messageCompleted ''msg-1'')) = Some ''agentmessage''" by code_simp
  moreover have "itemIdOf (paramsOf (messageCompleted ''msg-1'')) (itemOf (messageCompleted ''msg-1''))
                   = Some ''msg-1''" by code_simp
  ultimately show ?thesis by (simp add: prod_eq_iff)
qed

end
